theory Spec2Isabelle
  imports Main "HOL-Library.Sublist"
begin

section \<open>The HTTP cache of \<^verbatim>\<open>src/services/cache/index.js\<close>\<close>

text \<open>
  The module wraps a transport \<^verbatim>\<open>baseFetch\<close> in an HTTP cache. It is asynchronous
  JavaScript: promises, \<^verbatim>\<open>await\<close> and \<^verbatim>\<open>setTimeout\<close>. The embedding is a
  discrete-event model of the JavaScript event loop. Every piece of code that runs to
  completion without suspending (the body of an async function up to its next
  \<^verbatim>\<open>await\<close>, a promise callback, a timer callback) is a \<^emph>\<open>task\<close>; running a task at
  a time \<open>now\<close> yields the effects it performs on its collaborators, in source order, and
  the tasks it leaves behind with the time at which each becomes due. The loop runs the
  pending tasks in order of due time, first scheduled first among equals, and the result
  is the time-stamped trace of effects.

  The collaborators are parameters of the model: the policy engine (the
  \<^verbatim>\<open>CachePolicy\<close> class of the library \<^verbatim>\<open>http-cache-semantics\<close>), the
  platform's \<^verbatim>\<open>Response\<close> constructor, the Cache Store
  (\<^verbatim>\<open>react-native-cache\<close>) and the transport. A call on the Store, the transport or
  the event notifier is an effect of the trace. Calls of \<^verbatim>\<open>console.log\<close> are left
  out.
\<close>

subsection \<open>Values\<close>

text \<open>
  What \<^verbatim>\<open>cache.get\<close> resolves to is an arbitrary JavaScript value: the Flow annotation
  \<^verbatim>\<open>HttpCacheValue\<close> is not checked at run time. The values modelled are
  \<^verbatim>\<open>undefined\<close>, \<^verbatim>\<open>null\<close>, strings and objects (fields in insertion order).
\<close>

datatype jsval = JUndefined | JNull | JStr string | JObj "(string \<times> jsval) list"

datatype error = TypeError string | Error string

type_synonym headers = "(string \<times> string) list"

text \<open>
  Strings are sequences of bytes, so the size of a body's blob is its length. A response
  is its status, its headers and its body; reading the body as text gives the body.
\<close>

record response =
  status :: nat
  headers :: headers
  body :: string

text \<open>
  Modelled from the spec: the Flow type \<^verbatim>\<open>RequestOptions\<close> of
  \<^verbatim>\<open>hyperview/src/services/cache/types\<close>, which is not among the sources. The spec's
  request descriptor has a method, a header mapping and an opaque body; the module reads
  \<^verbatim>\<open>options.method\<close> and \<^verbatim>\<open>options.headers\<close>, either of which may be absent.
\<close>

record options =
  method' :: "string option"
  headers :: "headers option"
  body :: "string option"

text \<open>
  The object handed to \<^verbatim>\<open>cache.set\<close>, with the fields of the object literals of
  lines 46 to 51 and 91 to 96.
\<close>

record HttpCacheValue =
  text' :: jsval
  headers :: headers
  size' :: nat
  policy :: jsval

text \<open>
  Reading a property \<^verbatim>\<open>v.name\<close>, also by destructuring \<^verbatim>\<open>const { name } = v\<close>:
  a \<^verbatim>\<open>TypeError\<close> on \<^verbatim>\<open>undefined\<close> and \<^verbatim>\<open>null\<close>, \<^verbatim>\<open>undefined\<close> for a
  field that is not there.
\<close>

fun getProp :: "jsval \<Rightarrow> string \<Rightarrow> error + jsval" where
  "getProp JUndefined name = Inl (TypeError ''Cannot read properties of undefined'')"
| "getProp JNull name = Inl (TypeError ''Cannot read properties of null'')"
| "getProp (JStr s) name = Inr JUndefined"
| "getProp (JObj props) name =
     (case map_of props name of None \<Rightarrow> Inr JUndefined | Some v \<Rightarrow> Inr v)"

text \<open>
  \<^verbatim>\<open>{ ...obj, [name]: value }\<close> on a plain object: an existing key keeps its place and
  takes the new value, a new key goes last.
\<close>

fun objSet :: "('k \<times> 'v) list \<Rightarrow> 'k \<Rightarrow> 'v \<Rightarrow> ('k \<times> 'v) list" where
  "objSet [] k v = [(k, v)]"
| "objSet ((k', v') # kvs) k v =
     (if k' = k then (k, v) # kvs else (k', v') # objSet kvs k v)"

text \<open>\<^verbatim>\<open>String.prototype.toUpperCase\<close> on the ASCII letters.\<close>

definition toUpperChar :: "char \<Rightarrow> char" where
  "toUpperChar c =
     (case map_of (zip ''abcdefghijklmnopqrstuvwxyz'' ''ABCDEFGHIJKLMNOPQRSTUVWXYZ'') c of
        None \<Rightarrow> c | Some u \<Rightarrow> u)"

definition toUpperCase :: "string \<Rightarrow> string" where
  "toUpperCase s = map toUpperChar s"

text \<open>\<^verbatim>\<open>String.prototype.includes\<close>.\<close>

fun includes_str :: "string \<Rightarrow> string \<Rightarrow> bool" where
  "includes_str [] pat = (pat = [])"
| "includes_str (c # cs) pat = (prefix pat (c # cs) \<or> includes_str cs pat)"

text \<open>
  The body that \<^verbatim>\<open>new Response(text, ...)\<close> makes of its first argument: nothing for
  \<^verbatim>\<open>undefined\<close> and \<^verbatim>\<open>null\<close>, the string itself, the string conversion of an
  object.
\<close>

fun bodyText :: "jsval \<Rightarrow> string" where
  "bodyText JUndefined = []"
| "bodyText JNull = []"
| "bodyText (JStr s) = s"
| "bodyText (JObj props) = ''[object Object]''"

text \<open>\<^verbatim>\<open>response.clone()\<close> has the content of the response.\<close>

definition clone :: "response \<Rightarrow> response" where
  "clone r = r"

definition blobSize :: "response \<Rightarrow> nat" where
  "blobSize r = length (response.body r)"

subsection \<open>The collaborators\<close>

text \<open>
  The policy engine: the methods of \<^verbatim>\<open>CachePolicy\<close> that the module calls, over a type
  \<open>'p\<close> of policy objects. The methods that read the clock take the time of the call;
  those that throw on some input return a sum.
\<close>

record 'p CachePolicy =
  newPolicy :: "nat \<Rightarrow> options \<Rightarrow> response \<Rightarrow> bool \<Rightarrow> error + 'p"
  storable :: "'p \<Rightarrow> bool"
  toObject :: "'p \<Rightarrow> jsval"
  fromObject :: "jsval \<Rightarrow> error + 'p"
  timeToLive :: "nat \<Rightarrow> 'p \<Rightarrow> int"
  satisfiesWithoutRevalidation :: "nat \<Rightarrow> 'p \<Rightarrow> options \<Rightarrow> error + bool"
  revalidationHeaders :: "'p \<Rightarrow> options \<Rightarrow> error + headers"
  responseHeaders :: "nat \<Rightarrow> 'p \<Rightarrow> headers"
  revalidatedPolicy :: "nat \<Rightarrow> 'p \<Rightarrow> options \<Rightarrow> response \<Rightarrow> error + ('p \<times> bool)"

text \<open>
  The environment of a run: the policy engine, the platform's \<^verbatim>\<open>Response\<close> class,
  what the Store answers and after how long, what the transport answers and after how
  long. Times are in milliseconds.

  Of the \<^verbatim>\<open>Response\<close> class the module uses the constructor with a body and a
  header object. What the constructor makes of the header object is the platform's:
  \<open>constructHeaders body init\<close> is the header list of
  \<^verbatim>\<open>new Response(body, { headers: init })\<close> (the platform lower-cases names and adds
  a content type for a text body), or the \<^verbatim>\<open>TypeError\<close> that the constructor throws
  on a header name or value it does not accept.
\<close>

record 'p env =
  engine :: "'p CachePolicy"
  constructHeaders :: "jsval \<Rightarrow> headers \<Rightarrow> error + headers"
  cacheGet :: "string \<Rightarrow> error + jsval"
  getDelay :: nat
  cacheSet :: "string \<Rightarrow> HttpCacheValue \<Rightarrow> int \<Rightarrow> error option"
  setDelay :: nat
  baseFetch :: "string \<Rightarrow> options \<Rightarrow> error + response"
  netDelay :: nat

text \<open>
  The effects of a run: the calls on the Store, the transport and the notifier, the
  settling of the transport's promise, the settling of the promise that \<^verbatim>\<open>cachedFetch\<close>
  returned to its caller (the \<^verbatim>\<open>return\<close> or the exception that decides it), and a
  rejection that no handler receives.

  Modelled from the spec: the event notifier \<^verbatim>\<open>Events.dispatchCustomEvent\<close> of
  \<^verbatim>\<open>hyperview/src/services/events\<close>, which is not among the sources. By the spec it
  is \<^verbatim>\<open>dispatch(eventName, payload)\<close>; a call is the effect \<open>Dispatch\<close> with the
  name of the event and the URL that the module passes as payload.
\<close>

datatype effect =
    CacheGet string
  | CacheSet string HttpCacheValue int
  | BaseFetch string options
  | FetchSettled string "error + response"
  | Dispatch string string
  | Settled "error + response"
  | Unhandled error

subsection \<open>Tasks\<close>

text \<open>
  One constructor for each entry point of the source, with the variables its closure holds:
  the call of \<^verbatim>\<open>cachedFetch\<close>, its resumption after \<^verbatim>\<open>await cache.get(url)\<close>, the two
  timer callbacks and the promise callbacks of \<^verbatim>\<open>revalidateCacheHit\<close>, and the promise
  callbacks of \<^verbatim>\<open>handleCacheMiss\<close>.
\<close>

datatype 'p task =
    CachedFetch string options
  | AfterGet string options "error + jsval"
  | RevalidatingTimer string
  | RevalidationThen string options jsval headers 'p "error + response"
  | WriteBackTimer string jsval response 'p
  | AfterSet string "error option"
  | MissThen string options "error + response"
  | MissBlobThen string string response 'p
  | MissAfterSet "error option"

type_synonym 'p outcome = "effect list \<times> (nat \<times> 'p task) list"

text \<open>An exception in the synchronous part of \<^verbatim>\<open>cachedFetch\<close> rejects its promise.\<close>

definition orReject :: "error + 'a \<Rightarrow> ('a \<Rightarrow> 'p outcome) \<Rightarrow> 'p outcome" where
  "orReject x f = (case x of Inl e \<Rightarrow> ([Settled (Inl e)], []) | Inr v \<Rightarrow> f v)"

text \<open>An exception in a callback whose promise nobody holds goes unhandled.\<close>

definition orUnhandled :: "error + 'a \<Rightarrow> ('a \<Rightarrow> 'p outcome) \<Rightarrow> 'p outcome" where
  "orUnhandled x f = (case x of Inl e \<Rightarrow> ([Unhandled e], []) | Inr v \<Rightarrow> f v)"

text \<open>An effect performed before the rest of a task.\<close>

definition emit :: "effect \<Rightarrow> 'p outcome \<Rightarrow> 'p outcome" where
  "emit e out = (e # fst out, snd out)"

text \<open>
  \<^verbatim>\<open>new Response(text, { headers: headers })\<close>: the constructor throws, or the response
  has status 200, the headers the platform makes of the given ones, and the body made of
  the first argument.
\<close>

definition Response_new :: "'p env \<Rightarrow> jsval \<Rightarrow> headers \<Rightarrow> error + response" where
  "Response_new E tx hs =
     (case constructHeaders E tx hs of
        Inl e \<Rightarrow> Inl e
      | Inr hs' \<Rightarrow> Inr \<lparr>status = 200, headers = hs', body = bodyText tx\<rparr>)"

definition cachePolicyOptions_shared :: bool where
  "cachePolicyOptions_shared = False"

subsection \<open>\<^verbatim>\<open>handleCacheMiss\<close>\<close>

definition handleCacheMiss :: "'p env \<Rightarrow> nat \<Rightarrow> string \<Rightarrow> options \<Rightarrow> 'p outcome" where
  "handleCacheMiss E now url opts =
     ([BaseFetch url opts],
      [(now + netDelay E, MissThen url opts (baseFetch E url opts))])"

text \<open>
  The callback of line 34. A rejected transport promise rejects the caller's promise. The
  text is read from a clone of the response; the write to the Store is left to the
  callback of \<^verbatim>\<open>response.blob()\<close>, a task of its own due at once, and the clone is
  returned.
\<close>

definition handleCacheMiss_then ::
  "'p env \<Rightarrow> nat \<Rightarrow> string \<Rightarrow> options \<Rightarrow> error + response \<Rightarrow> 'p outcome" where
  "handleCacheMiss_then E now url opts res =
     emit (FetchSettled url res)
       (orReject res (\<lambda>resp.
        orReject (newPolicy (engine E) now opts resp cachePolicyOptions_shared)
          (\<lambda>cachePolicy.
             if \<not> storable (engine E) cachePolicy then ([Settled (Inr resp)], [])
             else
               let clonedResponse = clone resp;
                   tx = response.body (clone clonedResponse)
               in ([Settled (Inr clonedResponse)],
                   [(now, MissBlobThen url tx resp cachePolicy)]))))"

definition handleCacheMiss_blob ::
  "'p env \<Rightarrow> nat \<Rightarrow> string \<Rightarrow> string \<Rightarrow> response \<Rightarrow> 'p \<Rightarrow> 'p outcome" where
  "handleCacheMiss_blob E now url tx resp cachePolicy =
     (let cacheValue = \<lparr>text' = JStr tx, headers = response.headers (clone resp),
                        size' = blobSize resp, policy = toObject (engine E) cachePolicy\<rparr>;
          expiry = timeToLive (engine E) now cachePolicy
      in ([CacheSet url cacheValue expiry],
          [(now + setDelay E, MissAfterSet (cacheSet E url cacheValue expiry))]))"

subsection \<open>\<^verbatim>\<open>revalidateCacheHit\<close>\<close>

text \<open>
  The synchronous part, lines 68 to 78 and 107: the timer of the "revalidating" event is
  set, the transport is called, and the response built from the stored text is returned.
  The constructor of line 107 runs after the transport has been called: when it throws,
  the call rejects and the background revalidation goes on.
\<close>

definition revalidateCacheHit ::
  "'p env \<Rightarrow> nat \<Rightarrow> string \<Rightarrow> jsval \<Rightarrow> options \<Rightarrow> 'p outcome" where
  "revalidateCacheHit E now url cacheValue opts =
     orReject (getProp cacheValue ''text'') (\<lambda>tx.
     orReject (getProp cacheValue ''policy'') (\<lambda>policyObject.
     orReject (fromObject (engine E) policyObject) (\<lambda>pol.
     orReject (revalidationHeaders (engine E) pol opts) (\<lambda>revalidationHeaders.
       let revalidationOptions = opts\<lparr>options.headers := Some revalidationHeaders\<rparr>;
           hs = responseHeaders (engine E) now pol
       in ([BaseFetch url revalidationOptions, Settled (Response_new E tx hs)],
           [(now + 10, RevalidatingTimer url),
            (now + netDelay E,
             RevalidationThen url opts tx hs pol (baseFetch E url revalidationOptions))])))))"

text \<open>
  The callback of line 78. Nobody holds the promise of this chain, so a rejection of the
  transport, an exception of \<^verbatim>\<open>revalidatedPolicy\<close> and an exception of the
  constructor of line 87 go unhandled.
\<close>

definition revalidateCacheHit_then ::
  "'p env \<Rightarrow> nat \<Rightarrow> string \<Rightarrow> options \<Rightarrow> jsval \<Rightarrow> headers \<Rightarrow> 'p \<Rightarrow> error + response
     \<Rightarrow> 'p outcome" where
  "revalidateCacheHit_then E now url opts tx hs pol res =
     emit (FetchSettled url res)
       (orUnhandled res (\<lambda>revalidationResponse.
        orUnhandled (revalidatedPolicy (engine E) now pol opts revalidationResponse)
          (\<lambda>(revalidated, modified).
             orUnhandled
               (if modified then Inr revalidationResponse else Response_new E tx hs)
               (\<lambda>newResponse.
                  ([], [(now + 2000, WriteBackTimer url tx newResponse revalidated)])))))"

text \<open>The timer callback of line 90 with the callback of \<^verbatim>\<open>newResponse.blob()\<close>.\<close>

definition revalidateCacheHit_write ::
  "'p env \<Rightarrow> nat \<Rightarrow> string \<Rightarrow> jsval \<Rightarrow> response \<Rightarrow> 'p \<Rightarrow> 'p outcome" where
  "revalidateCacheHit_write E now url tx newResponse revalidated =
     (let newCacheValue = \<lparr>text' = tx, headers = response.headers newResponse,
                           size' = blobSize newResponse,
                           policy = toObject (engine E) revalidated\<rparr>;
          expiry = timeToLive (engine E) now revalidated
      in ([CacheSet url newCacheValue expiry],
          [(now + setDelay E, AfterSet url (cacheSet E url newCacheValue expiry))]))"

subsection \<open>\<^verbatim>\<open>handleCacheHit\<close>\<close>

definition handleCacheHit ::
  "'p env \<Rightarrow> nat \<Rightarrow> string \<Rightarrow> jsval \<Rightarrow> options \<Rightarrow> 'p outcome" where
  "handleCacheHit E now url cacheValue opts =
     orReject (getProp cacheValue ''text'') (\<lambda>tx.
     orReject (getProp cacheValue ''policy'') (\<lambda>policyObject.
     orReject (fromObject (engine E) policyObject) (\<lambda>pol.
     orReject (satisfiesWithoutRevalidation (engine E) now pol opts) (\<lambda>fresh.
       if fresh then
         ([Settled (Response_new E tx (responseHeaders (engine E) now pol))], [])
       else revalidateCacheHit E now url cacheValue opts))))"

subsection \<open>\<^verbatim>\<open>cachedFetch\<close>\<close>

text \<open>Lines 142 to 147: the options handed to the hit and miss paths.\<close>

definition optionsNew :: "string \<Rightarrow> options \<Rightarrow> options" where
  "optionsNew url opts =
     (if \<not> includes_str url ''without_caching.xml''
      then opts\<lparr>method' := map_option toUpperCase (method' opts)\<rparr>
      else opts\<lparr>method' := map_option toUpperCase (method' opts),
                options.headers :=
                  Some (objSet (case options.headers opts of None \<Rightarrow> [] | Some h \<Rightarrow> h)
                          ''cache-control'' ''no-cache, no-store'')\<rparr>)"

text \<open>Line 138: the call of \<^verbatim>\<open>cache.get(url)\<close>, on which the function suspends.\<close>

definition cachedFetch :: "'p env \<Rightarrow> nat \<Rightarrow> string \<Rightarrow> options \<Rightarrow> 'p outcome" where
  "cachedFetch E now url opts =
     ([CacheGet url], [(now + getDelay E, AfterGet url opts (cacheGet E url))])"

text \<open>Lines 142 to 153: the resumption with the value the Store answered.\<close>

definition cachedFetch_resume ::
  "'p env \<Rightarrow> nat \<Rightarrow> string \<Rightarrow> options \<Rightarrow> error + jsval \<Rightarrow> 'p outcome" where
  "cachedFetch_resume E now url opts got =
     orReject got (\<lambda>cacheValue.
       if cacheValue \<noteq> JUndefined
       then handleCacheHit E now url cacheValue (optionsNew url opts)
       else handleCacheMiss E now url (optionsNew url opts))"

subsection \<open>The event loop\<close>

fun step :: "'p env \<Rightarrow> nat \<Rightarrow> 'p task \<Rightarrow> 'p outcome" where
  "step E now (CachedFetch url opts) = cachedFetch E now url opts"
| "step E now (AfterGet url opts got) = cachedFetch_resume E now url opts got"
| "step E now (RevalidatingTimer url) = ([Dispatch ''response-stale-revalidating'' url], [])"
| "step E now (RevalidationThen url opts tx hs pol res) =
     revalidateCacheHit_then E now url opts tx hs pol res"
| "step E now (WriteBackTimer url tx newResponse revalidated) =
     revalidateCacheHit_write E now url tx newResponse revalidated"
| "step E now (AfterSet url res) =
     (case res of None \<Rightarrow> ([Dispatch ''response-revalidated'' url], [])
                | Some e \<Rightarrow> ([Unhandled e], []))"
| "step E now (MissThen url opts res) = handleCacheMiss_then E now url opts res"
| "step E now (MissBlobThen url tx resp cachePolicy) =
     handleCacheMiss_blob E now url tx resp cachePolicy"
| "step E now (MissAfterSet res) =
     (case res of None \<Rightarrow> ([], []) | Some e \<Rightarrow> ([Unhandled e], []))"

text \<open>The pending tasks, by due time; a task goes behind those due at the same time.\<close>

fun enqueue :: "nat \<times> 'p task \<Rightarrow> (nat \<times> 'p task) list \<Rightarrow> (nat \<times> 'p task) list" where
  "enqueue x [] = [x]"
| "enqueue x (y # q) = (if fst x < fst y then x # y # q else y # enqueue x q)"

definition schedule :: "(nat \<times> 'p task) list \<Rightarrow> (nat \<times> 'p task) list \<Rightarrow> (nat \<times> 'p task) list"
  where "schedule new q = foldl (\<lambda>q x. enqueue x q) q new"

text \<open>How many tasks a task can still lead to, itself included.\<close>

fun weight :: "'p task \<Rightarrow> nat" where
  "weight (CachedFetch _ _) = 6"
| "weight (AfterGet _ _ _) = 5"
| "weight (RevalidatingTimer _) = 1"
| "weight (RevalidationThen _ _ _ _ _ _) = 3"
| "weight (WriteBackTimer _ _ _ _) = 2"
| "weight (AfterSet _ _) = 1"
| "weight (MissThen _ _ _) = 3"
| "weight (MissBlobThen _ _ _ _) = 2"
| "weight (MissAfterSet _) = 1"

definition pending :: "(nat \<times> 'p task) list \<Rightarrow> nat" where
  "pending q = sum_list (map (weight \<circ> snd) q)"

text \<open>
  The loop: the first pending task runs at its due time, its effects are stamped with that
  time, and the tasks it leaves are scheduled.
\<close>

function run :: "'p env \<Rightarrow> (nat \<times> 'p task) list \<Rightarrow> (nat \<times> effect) list" where
  "run E [] = []"
| "run E ((now, k) # q) =
     map (Pair now) (fst (step E now k)) @ run E (schedule (snd (step E now k)) q)"
  by pat_completeness auto
text \<open>A call of the wrapped fetch (\<^verbatim>\<open>wrapFetch(cache, baseFetch)(url, options)\<close>) at time 0.\<close>

definition wrapFetch :: "'p env \<Rightarrow> string \<Rightarrow> options \<Rightarrow> (nat \<times> effect) list" where
  "wrapFetch E url opts = run E [(0, CachedFetch url opts)]"


subsection \<open>Hits, and the order of effects\<close>

text \<open>
  A cache hit on a well-formed entry: the Store answers for the URL with a value other than
  \<^verbatim>\<open>undefined\<close>, whose text is \<open>tx\<close> and whose policy snapshot the engine
  reconstructs as \<open>pol\<close>.
\<close>

definition cacheHit :: "'p env \<Rightarrow> string \<Rightarrow> jsval \<Rightarrow> 'p \<Rightarrow> bool" where
  "cacheHit E url tx pol =
     (case cacheGet E url of
        Inl e \<Rightarrow> False
      | Inr cacheValue \<Rightarrow>
          cacheValue \<noteq> JUndefined \<and> getProp cacheValue ''text'' = Inr tx \<and>
          (case getProp cacheValue ''policy'' of
             Inl e \<Rightarrow> False
           | Inr policyObject \<Rightarrow> fromObject (engine E) policyObject = Inr pol))"

text \<open>
  The hit is fresh or stale by the engine's verdict on the normalised options at the time
  the Store has answered. For a stale hit the engine also gives the headers \<open>rh\<close> of the
  revalidation request.
\<close>

definition freshHit :: "'p env \<Rightarrow> string \<Rightarrow> options \<Rightarrow> jsval \<Rightarrow> 'p \<Rightarrow> bool" where
  "freshHit E url opts tx pol =
     (cacheHit E url tx pol \<and>
      satisfiesWithoutRevalidation (engine E) (getDelay E) pol (optionsNew url opts) = Inr True)"

definition staleHit :: "'p env \<Rightarrow> string \<Rightarrow> options \<Rightarrow> jsval \<Rightarrow> 'p \<Rightarrow> headers \<Rightarrow> bool" where
  "staleHit E url opts tx pol rh =
     (cacheHit E url tx pol \<and>
      satisfiesWithoutRevalidation (engine E) (getDelay E) pol (optionsNew url opts) = Inr False \<and>
      revalidationHeaders (engine E) pol (optionsNew url opts) = Inr rh)"

text \<open>
  The request of the background revalidation, and what the constructor makes of the
  stored text and the headers reconstructed from the stored policy: the response served
  from the Store, or the error thrown.
\<close>

definition revalidationOptions :: "string \<Rightarrow> options \<Rightarrow> headers \<Rightarrow> options" where
  "revalidationOptions url opts rh = (optionsNew url opts)\<lparr>options.headers := Some rh\<rparr>"

definition staleResponse :: "'p env \<Rightarrow> jsval \<Rightarrow> 'p \<Rightarrow> error + response" where
  "staleResponse E tx pol = Response_new E tx (responseHeaders (engine E) (getDelay E) pol)"

text \<open>
  \<open>precedes P Q xs\<close>: in \<open>xs\<close> no element with \<open>Q\<close> comes before or at the first element
  with \<open>P\<close>, and none at all when no element has \<open>P\<close>. So every \<open>Q\<close> is strictly
  after a \<open>P\<close>.
\<close>

fun precedes :: "('a \<Rightarrow> bool) \<Rightarrow> ('a \<Rightarrow> bool) \<Rightarrow> 'a list \<Rightarrow> bool" where
  "precedes P Q [] = True"
| "precedes P Q (x # xs) = (\<not> Q x \<and> (P x \<or> precedes P Q xs))"

fun isCacheGet :: "effect \<Rightarrow> bool" where
  "isCacheGet (CacheGet url) = True"
| "isCacheGet _ = False"

fun isCacheSet :: "effect \<Rightarrow> bool" where
  "isCacheSet (CacheSet url v ttl) = True"
| "isCacheSet _ = False"

fun isBaseFetch :: "effect \<Rightarrow> bool" where
  "isBaseFetch (BaseFetch url opts) = True"
| "isBaseFetch _ = False"

fun isFetchSettled :: "effect \<Rightarrow> bool" where
  "isFetchSettled (FetchSettled url res) = True"
| "isFetchSettled _ = False"

fun isSettled :: "effect \<Rightarrow> bool" where
  "isSettled (Settled res) = True"
| "isSettled _ = False"


fun isCachedFetch :: "'p task \<Rightarrow> bool" where
  "isCachedFetch (CachedFetch url opts) = True"
| "isCachedFetch _ = False"

text \<open>The effects of a run without their times.\<close>

definition effects :: "'p env \<Rightarrow> string \<Rightarrow> options \<Rightarrow> effect list" where
  "effects E url opts = map snd (wrapFetch E url opts)"


subsection \<open>A stub policy engine and a stub environment\<close>

text \<open>
  For the runs on concrete inputs: a small policy engine in the shape of
  \<^verbatim>\<open>http-cache-semantics\<close>. A policy keeps the response headers; a response is fresh
  while it says \<^verbatim>\<open>cache-control: immutable\<close> and the request has no
  \<^verbatim>\<open>cache-control\<close> of its own; the validator is the \<^verbatim>\<open>etag\<close>; status 304 on
  revalidation means not modified, and its headers are merged over the stored ones.
\<close>

record stubPolicy =
  resHeaders :: headers
  noStore :: bool

definition requestHeaders :: "options \<Rightarrow> error + headers" where
  "requestHeaders req =
     (case options.headers req of None \<Rightarrow> Inl (Error ''Request headers missing'')
                                | Some h \<Rightarrow> Inr h)"

definition stub_newPolicy :: "nat \<Rightarrow> options \<Rightarrow> response \<Rightarrow> bool \<Rightarrow> error + stubPolicy" where
  "stub_newPolicy now req res shared =
     (case requestHeaders req of Inl e \<Rightarrow> Inl e
      | Inr h \<Rightarrow>
          Inr \<lparr>resHeaders = response.headers res,
               noStore = (map_of h ''cache-control'' = Some ''no-cache, no-store''
                          \<or> map_of (response.headers res) ''cache-control'' = Some ''no-store'')\<rparr>)"

definition headersObject :: "headers \<Rightarrow> jsval" where
  "headersObject hs = JObj (map (\<lambda>(k, v). (k, JStr v)) hs)"

definition stub_toObject :: "stubPolicy \<Rightarrow> jsval" where
  "stub_toObject p = JObj [(''v'', JStr ''1''), (''resh'', headersObject (resHeaders p))]"

fun headerOfField :: "string \<times> jsval \<Rightarrow> (string \<times> string) option" where
  "headerOfField (k, JStr v) = Some (k, v)"
| "headerOfField (k, _) = None"

definition stub_fromObject :: "jsval \<Rightarrow> error + stubPolicy" where
  "stub_fromObject obj =
     (case obj of
        JObj props \<Rightarrow>
          if map_of props ''v'' = Some (JStr ''1'')
          then (case map_of props ''resh'' of
                  Some (JObj hs) \<Rightarrow>
                    (case those (map headerOfField hs) of
                       None \<Rightarrow> Inl (Error ''Invalid serialization'')
                     | Some h \<Rightarrow> Inr \<lparr>resHeaders = h, noStore = False\<rparr>)
                | _ \<Rightarrow> Inl (Error ''Invalid serialization''))
          else Inl (Error ''Invalid serialization'')
      | _ \<Rightarrow> Inl (Error ''Invalid serialization''))"

definition stub_satisfies :: "nat \<Rightarrow> stubPolicy \<Rightarrow> options \<Rightarrow> error + bool" where
  "stub_satisfies now p req =
     (case requestHeaders req of Inl e \<Rightarrow> Inl e
      | Inr h \<Rightarrow> Inr (map_of h ''cache-control'' = None
                     \<and> map_of (resHeaders p) ''cache-control'' = Some ''immutable''))"

definition stub_revalidationHeaders :: "stubPolicy \<Rightarrow> options \<Rightarrow> error + headers" where
  "stub_revalidationHeaders p req =
     (case requestHeaders req of Inl e \<Rightarrow> Inl e
      | Inr h \<Rightarrow> Inr (case map_of (resHeaders p) ''etag'' of None \<Rightarrow> h
                      | Some tag \<Rightarrow> objSet h ''if-none-match'' tag))"

definition stub_revalidatedPolicy ::
  "nat \<Rightarrow> stubPolicy \<Rightarrow> options \<Rightarrow> response \<Rightarrow> error + (stubPolicy \<times> bool)" where
  "stub_revalidatedPolicy now p req res =
     (case requestHeaders req of Inl e \<Rightarrow> Inl e
      | Inr h \<Rightarrow>
          if status res = 304
          then Inr (p\<lparr>resHeaders := foldl (\<lambda>hs (k, v). objSet hs k v) (resHeaders p)
                                      (response.headers res)\<rparr>, False)
          else (case stub_newPolicy now req res False of Inl e \<Rightarrow> Inl e
                | Inr p' \<Rightarrow> Inr (p', True)))"

text \<open>
  A stub of the platform's constructor, in the shape of the Fetch standard: a header name
  must be a token, a value has no NUL, CR or LF, names are lower-cased, and a body other
  than \<^verbatim>\<open>undefined\<close> and \<^verbatim>\<open>null\<close> gets the content type of a text unless the
  headers have one. Headers stay in the order given.
\<close>

definition isTokenChar :: "char \<Rightarrow> bool" where
  "isTokenChar c =
     (c \<in> set ''abcdefghijklmnopqrstuvwxyzABCDEFGHIJKLMNOPQRSTUVWXYZ0123456789!#$%&*+-.^_|~''
      \<or> c = CHR 0x27 \<or> c = CHR 0x60)"

definition validHeader :: "string \<times> string \<Rightarrow> bool" where
  "validHeader h =
     (fst h \<noteq> [] \<and> list_all isTokenChar (fst h)
      \<and> CHR 0x00 \<notin> set (snd h) \<and> CHR 0x0A \<notin> set (snd h) \<and> CHR 0x0D \<notin> set (snd h))"

definition toLowerChar :: "char \<Rightarrow> char" where
  "toLowerChar c =
     (case map_of (zip ''ABCDEFGHIJKLMNOPQRSTUVWXYZ'' ''abcdefghijklmnopqrstuvwxyz'') c of
        None \<Rightarrow> c | Some l \<Rightarrow> l)"

definition stub_constructHeaders :: "jsval \<Rightarrow> headers \<Rightarrow> error + headers" where
  "stub_constructHeaders tx hs =
     (if list_all validHeader hs
      then (let hs' = map (\<lambda>(k, v). (map toLowerChar k, v)) hs
            in Inr (if tx \<noteq> JUndefined \<and> tx \<noteq> JNull \<and> map_of hs' ''content-type'' = None
                    then hs' @ [(''content-type'', ''text/plain;charset=UTF-8'')]
                    else hs'))
      else Inl (TypeError ''Invalid header''))"

definition stubEngine :: "stubPolicy CachePolicy" where
  "stubEngine =
     \<lparr>newPolicy = stub_newPolicy, storable = (\<lambda>p. \<not> noStore p), toObject = stub_toObject,
      fromObject = stub_fromObject, timeToLive = (\<lambda>now p. 60000),
      satisfiesWithoutRevalidation = stub_satisfies,
      revalidationHeaders = stub_revalidationHeaders,
      responseHeaders = (\<lambda>now p. resHeaders p),
      revalidatedPolicy = stub_revalidatedPolicy\<rparr>"

text \<open>
  A Store with a fresh entry, three stale entries, \<^verbatim>\<open>null\<close>, a string and an object
  without a policy; a fresh and a stale entry whose policy has a header name with a
  space; and a stale entry and \<^verbatim>\<open>null\<close> under URLs of the no-store pattern. The transport answers the
  first stale entry with a new body, the second and the one with the bad header name
  with 304, and fails on the third. The Store answers after 1 ms, the transport after
  50 ms. The module never reads the \<^verbatim>\<open>size\<close> of a stored entry, a number, and the
  entries here are without it.
\<close>

definition storedEntry :: "string \<Rightarrow> headers \<Rightarrow> jsval" where
  "storedEntry tx hs =
     JObj [(''text'', JStr tx), (''headers'', headersObject hs),
           (''policy'', stub_toObject \<lparr>resHeaders = hs, noStore = False\<rparr>)]"

definition stubStore :: "string \<Rightarrow> error + jsval" where
  "stubStore url =
     (if url = ''/fresh.xml''
      then Inr (storedEntry ''<doc/>'' [(''cache-control'', ''immutable'')])
      else if url = ''/stale.xml'' then Inr (storedEntry ''old'' [(''etag'', ''v1'')])
      else if url = ''/same.xml'' then Inr (storedEntry ''old'' [(''etag'', ''v1'')])
      else if url = ''/down.xml'' then Inr (storedEntry ''old'' [(''etag'', ''v1'')])
      else if url = ''/null.xml'' then Inr JNull
      else if url = ''/broken.xml'' then Inr (JObj [(''text'', JStr ''old'')])
      else if url = ''/string.xml'' then Inr (JStr ''oops'')
      else if url = ''/badfresh.xml''
      then Inr (storedEntry ''<doc/>'' [(''bad name'', ''x''), (''cache-control'', ''immutable'')])
      else if url = ''/badstale.xml''
      then Inr (storedEntry ''old'' [(''bad name'', ''x''), (''etag'', ''v1'')])
      else if url = ''/old_without_caching.xml''
      then Inr (storedEntry ''old'' [(''etag'', ''v1'')])
      else if url = ''/null_without_caching.xml'' then Inr JNull
      else Inr JUndefined)"

definition stubFetch :: "string \<Rightarrow> options \<Rightarrow> error + response" where
  "stubFetch url opts =
     (if url = ''/stale.xml''
      then Inr \<lparr>status = 200, headers = [(''etag'', ''v2'')], body = ''new!''\<rparr>
      else if url = ''/same.xml'' \<or> url = ''/badstale.xml''
      then Inr \<lparr>status = 304,
                headers = [(''etag'', ''v1''), (''cache-control'', ''immutable'')],
                body = []\<rparr>
      else if url = ''/down.xml'' then Inl (TypeError ''Network request failed'')
      else Inr \<lparr>status = 200, headers = [(''etag'', ''v1'')], body = ''<doc/>''\<rparr>)"

definition stubEnv :: "stubPolicy env" where
  "stubEnv =
     \<lparr>engine = stubEngine, constructHeaders = stub_constructHeaders,
      cacheGet = stubStore, getDelay = 1,
      cacheSet = (\<lambda>url v ttl. None), setDelay = 2,
      baseFetch = stubFetch, netDelay = 50\<rparr>"

definition getOptions :: options where
  "getOptions = \<lparr>method' = Some ''get'', headers = Some [(''accept'', ''*/*'')], body = None\<rparr>"

subsection \<open>Termination of the loop\<close>

lemma pending_Nil [simp]: "pending [] = 0"
  by (simp add: pending_def)

lemma pending_Cons [simp]: "pending (x # q) = weight (snd x) + pending q"
  by (simp add: pending_def)

lemma pending_enqueue: "pending (enqueue x q) = weight (snd x) + pending q"
  by (induction q) simp_all

lemma pending_schedule: "pending (schedule new q) = pending new + pending q"
  unfolding schedule_def
  by (induction new arbitrary: q) (simp_all add: pending_enqueue)

lemma pending_emit [simp]: "pending (snd (emit e out)) = pending (snd out)"
  by (simp add: emit_def)

lemma pending_orReject:
  assumes "\<And>v. x = Inr v \<Longrightarrow> pending (snd (f v)) \<le> n"
  shows "pending (snd (orReject x f)) \<le> n"
  using assms by (cases x) (simp_all add: orReject_def)

lemma pending_orUnhandled:
  assumes "\<And>v. x = Inr v \<Longrightarrow> pending (snd (f v)) \<le> n"
  shows "pending (snd (orUnhandled x f)) \<le> n"
  using assms by (cases x) (simp_all add: orUnhandled_def)

lemma pending_revalidateCacheHit:
  "pending (snd (revalidateCacheHit E now url cacheValue opts)) \<le> 4"
  unfolding revalidateCacheHit_def
  by (intro pending_orReject) (simp add: Let_def)

lemma pending_handleCacheHit:
  "pending (snd (handleCacheHit E now url cacheValue opts)) \<le> 4"
  unfolding handleCacheHit_def
  by (intro pending_orReject) (simp add: pending_revalidateCacheHit)

lemma pending_cachedFetch_resume:
  "pending (snd (cachedFetch_resume E now url opts got)) \<le> 4"
  unfolding cachedFetch_resume_def
  by (intro pending_orReject) (simp add: pending_handleCacheHit handleCacheMiss_def)

lemma pending_handleCacheMiss_then:
  "pending (snd (handleCacheMiss_then E now url opts res)) \<le> 2"
  unfolding handleCacheMiss_then_def pending_emit
  by (intro pending_orReject) (simp add: Let_def)

lemma pending_revalidateCacheHit_then:
  "pending (snd (revalidateCacheHit_then E now url opts tx hs pol res)) \<le> 2"
proof -
  have "pending (snd (orUnhandled x
          (\<lambda>newResponse. ([], [(now + 2000, WriteBackTimer url tx newResponse rp)])))) \<le> 2"
    for x :: "error + response" and rp :: 'a
    by (cases x) (simp_all add: orUnhandled_def)
  then show ?thesis
    unfolding revalidateCacheHit_then_def pending_emit
    by (intro pending_orUnhandled) (simp split: prod.splits)
qed

lemma pending_step: "pending (snd (step E now k)) < weight k"
proof (cases k)
  case (CachedFetch url opts)
  then show ?thesis by (simp add: cachedFetch_def)
next
  case (AfterGet url opts got)
  then show ?thesis
    using pending_cachedFetch_resume [of E now url opts got] by simp
next
  case (RevalidationThen url opts tx hs pol res)
  then show ?thesis
    using pending_revalidateCacheHit_then [of E now url opts tx hs pol res] by simp
next
  case (WriteBackTimer url tx newResponse revalidated)
  then show ?thesis by (simp add: revalidateCacheHit_write_def Let_def)
next
  case (MissThen url opts res)
  then show ?thesis
    using pending_handleCacheMiss_then [of E now url opts res] by simp
next
  case (MissBlobThen url tx resp cachePolicy)
  then show ?thesis by (simp add: handleCacheMiss_blob_def Let_def)
qed (simp_all split: option.splits)

termination run
proof (relation "measure (\<lambda>(E, q). pending q)")
  show "wf (measure (\<lambda>(E, q). pending q))" by simp
next
  fix E :: "'p env" and now k and q :: "(nat \<times> 'p task) list"
  have "pending (schedule (snd (step E now k)) q) < pending ((now, k) # q)"
    using pending_step [of E now k] by (simp add: pending_schedule)
  then show "((E, schedule (snd (step E now k)) q), (E, (now, k) # q))
               \<in> measure (\<lambda>(E, q). pending q)"
    by simp
qed

subsection \<open>The trace of a hit\<close>

lemma wrapFetch_resume:
  "wrapFetch E url opts =
     (0, CacheGet url) # run E [(getDelay E, AfterGet url opts (cacheGet E url))]"
  by (simp add: wrapFetch_def cachedFetch_def schedule_def)

lemma cacheHit_resume:
  assumes "cacheHit E url tx pol"
  shows "cachedFetch_resume E now url opts (cacheGet E url) =
           orReject (satisfiesWithoutRevalidation (engine E) now pol (optionsNew url opts))
             (\<lambda>fresh. if fresh
                then ([Settled (Response_new E tx (responseHeaders (engine E) now pol))], [])
                else orReject (revalidationHeaders (engine E) pol (optionsNew url opts))
                  (\<lambda>rh. ([BaseFetch url (revalidationOptions url opts rh),
                           Settled (Response_new E tx (responseHeaders (engine E) now pol))],
                          [(now + 10, RevalidatingTimer url),
                           (now + netDelay E,
                            RevalidationThen url (optionsNew url opts) tx
                              (responseHeaders (engine E) now pol) pol
                              (baseFetch E url (revalidationOptions url opts rh)))])))"
  using assms
  by (auto simp: cacheHit_def cachedFetch_resume_def handleCacheHit_def
        revalidateCacheHit_def orReject_def revalidationOptions_def Let_def
      split: sum.splits)

lemma fresh_trace:
  assumes "freshHit E url opts tx pol"
  shows "wrapFetch E url opts =
           [(0, CacheGet url), (getDelay E, Settled (staleResponse E tx pol))]"
proof -
  from assms have hit: "cacheHit E url tx pol"
    and fresh: "satisfiesWithoutRevalidation (engine E) (getDelay E) pol (optionsNew url opts)
                  = Inr True"
    by (simp_all add: freshHit_def)
  show ?thesis
    by (simp add: wrapFetch_resume cacheHit_resume [OF hit] fresh orReject_def
          staleResponse_def schedule_def)
qed

lemma stale_trace:
  assumes "staleHit E url opts tx pol rh"
  shows "wrapFetch E url opts =
           [(0, CacheGet url),
            (getDelay E, BaseFetch url (revalidationOptions url opts rh)),
            (getDelay E, Settled (staleResponse E tx pol))] @
           run E (schedule
             [(getDelay E + 10, RevalidatingTimer url),
              (getDelay E + netDelay E,
               RevalidationThen url (optionsNew url opts) tx
                 (responseHeaders (engine E) (getDelay E) pol) pol
                 (baseFetch E url (revalidationOptions url opts rh)))] [])"
proof -
  from assms have hit: "cacheHit E url tx pol"
    and stale: "satisfiesWithoutRevalidation (engine E) (getDelay E) pol (optionsNew url opts)
                  = Inr False"
    and rh: "revalidationHeaders (engine E) pol (optionsNew url opts) = Inr rh"
    by (simp_all add: staleHit_def)
  show ?thesis
    by (simp add: wrapFetch_resume cacheHit_resume [OF hit] stale rh orReject_def
          staleResponse_def)
qed

text \<open>
  The background revalidation, by the outcome of the transport, of the merge and of the
  constructor of line 87.
\<close>

lemma background_failed:
  "run E (schedule [(g + 10, RevalidatingTimer url),
                    (g + d, RevalidationThen url on tx hs pol (Inl e))] []) =
   (if d < 10
    then [(g + d, FetchSettled url (Inl e)), (g + d, Unhandled e),
          (g + 10, Dispatch ''response-stale-revalidating'' url)]
    else [(g + 10, Dispatch ''response-stale-revalidating'' url),
          (g + d, FetchSettled url (Inl e)), (g + d, Unhandled e)])"
  by (simp add: schedule_def revalidateCacheHit_then_def emit_def orUnhandled_def)

lemma background_policy_error:
  assumes "revalidatedPolicy (engine E) (g + d) pol on r = Inl e"
  shows "run E (schedule [(g + 10, RevalidatingTimer url),
                          (g + d, RevalidationThen url on tx hs pol (Inr r))] []) =
         (if d < 10
          then [(g + d, FetchSettled url (Inr r)), (g + d, Unhandled e),
                (g + 10, Dispatch ''response-stale-revalidating'' url)]
          else [(g + 10, Dispatch ''response-stale-revalidating'' url),
                (g + d, FetchSettled url (Inr r)), (g + d, Unhandled e)])"
  using assms
  by (simp add: schedule_def revalidateCacheHit_then_def emit_def orUnhandled_def)

lemma background_unbuilt:
  assumes "revalidatedPolicy (engine E) (g + d) pol on r = Inr (rp, False)"
    and "Response_new E tx hs = Inl e"
  shows "run E (schedule [(g + 10, RevalidatingTimer url),
                          (g + d, RevalidationThen url on tx hs pol (Inr r))] []) =
         (if d < 10
          then [(g + d, FetchSettled url (Inr r)), (g + d, Unhandled e),
                (g + 10, Dispatch ''response-stale-revalidating'' url)]
          else [(g + 10, Dispatch ''response-stale-revalidating'' url),
                (g + d, FetchSettled url (Inr r)), (g + d, Unhandled e)])"
  using assms
  by (simp add: schedule_def revalidateCacheHit_then_def emit_def orUnhandled_def)

lemma background_written:
  assumes "revalidatedPolicy (engine E) (g + d) pol on r = Inr (rp, m)"
    and "(if m then Inr r else Response_new E tx hs) = Inr newResponse"
    and "v = \<lparr>text' = tx, headers = response.headers newResponse,
              size' = blobSize newResponse, policy = toObject (engine E) rp\<rparr>"
    and "ttl = timeToLive (engine E) (g + d + 2000) rp"
  shows "run E (schedule [(g + 10, RevalidatingTimer url),
                          (g + d, RevalidationThen url on tx hs pol (Inr r))] []) =
         (if d < 10
          then [(g + d, FetchSettled url (Inr r)),
                (g + 10, Dispatch ''response-stale-revalidating'' url)]
          else [(g + 10, Dispatch ''response-stale-revalidating'' url),
                (g + d, FetchSettled url (Inr r))]) @
         [(g + d + 2000, CacheSet url v ttl),
          (g + d + 2000 + setDelay E,
           case cacheSet E url v ttl of
             None \<Rightarrow> Dispatch ''response-revalidated'' url
           | Some e' \<Rightarrow> Unhandled e')]"
  using assms
  by (simp add: schedule_def revalidateCacheHit_then_def revalidateCacheHit_write_def
        emit_def orUnhandled_def Let_def split: option.splits)

text \<open>The ways a stale hit can go, each with its whole trace.\<close>

lemma stale_cases:
  assumes "staleHit E url opts tx pol rh"
  obtains
    (failed) e where
      "baseFetch E url (revalidationOptions url opts rh) = Inl e"
      "wrapFetch E url opts =
         [(0, CacheGet url),
          (getDelay E, BaseFetch url (revalidationOptions url opts rh)),
          (getDelay E, Settled (staleResponse E tx pol))] @
         (if netDelay E < 10
          then [(getDelay E + netDelay E, FetchSettled url (Inl e)),
                (getDelay E + netDelay E, Unhandled e),
                (getDelay E + 10, Dispatch ''response-stale-revalidating'' url)]
          else [(getDelay E + 10, Dispatch ''response-stale-revalidating'' url),
                (getDelay E + netDelay E, FetchSettled url (Inl e)),
                (getDelay E + netDelay E, Unhandled e)])"
  | (policy_error) r e where
      "baseFetch E url (revalidationOptions url opts rh) = Inr r"
      "revalidatedPolicy (engine E) (getDelay E + netDelay E) pol (optionsNew url opts) r = Inl e"
      "wrapFetch E url opts =
         [(0, CacheGet url),
          (getDelay E, BaseFetch url (revalidationOptions url opts rh)),
          (getDelay E, Settled (staleResponse E tx pol))] @
         (if netDelay E < 10
          then [(getDelay E + netDelay E, FetchSettled url (Inr r)),
                (getDelay E + netDelay E, Unhandled e),
                (getDelay E + 10, Dispatch ''response-stale-revalidating'' url)]
          else [(getDelay E + 10, Dispatch ''response-stale-revalidating'' url),
                (getDelay E + netDelay E, FetchSettled url (Inr r)),
                (getDelay E + netDelay E, Unhandled e)])"
  | (unbuilt) r rp e where
      "baseFetch E url (revalidationOptions url opts rh) = Inr r"
      "revalidatedPolicy (engine E) (getDelay E + netDelay E) pol (optionsNew url opts) r
         = Inr (rp, False)"
      "staleResponse E tx pol = Inl e"
      "wrapFetch E url opts =
         [(0, CacheGet url),
          (getDelay E, BaseFetch url (revalidationOptions url opts rh)),
          (getDelay E, Settled (Inl e))] @
         (if netDelay E < 10
          then [(getDelay E + netDelay E, FetchSettled url (Inr r)),
                (getDelay E + netDelay E, Unhandled e),
                (getDelay E + 10, Dispatch ''response-stale-revalidating'' url)]
          else [(getDelay E + 10, Dispatch ''response-stale-revalidating'' url),
                (getDelay E + netDelay E, FetchSettled url (Inr r)),
                (getDelay E + netDelay E, Unhandled e)])"
  | (written) r rp m newResponse where
      "baseFetch E url (revalidationOptions url opts rh) = Inr r"
      "revalidatedPolicy (engine E) (getDelay E + netDelay E) pol (optionsNew url opts) r
         = Inr (rp, m)"
      "(if m then Inr r else staleResponse E tx pol) = Inr newResponse"
      "wrapFetch E url opts =
         [(0, CacheGet url),
          (getDelay E, BaseFetch url (revalidationOptions url opts rh)),
          (getDelay E, Settled (staleResponse E tx pol))] @
         (if netDelay E < 10
          then [(getDelay E + netDelay E, FetchSettled url (Inr r)),
                (getDelay E + 10, Dispatch ''response-stale-revalidating'' url)]
          else [(getDelay E + 10, Dispatch ''response-stale-revalidating'' url),
                (getDelay E + netDelay E, FetchSettled url (Inr r))]) @
         [(getDelay E + netDelay E + 2000,
           CacheSet url
             \<lparr>text' = tx, headers = response.headers newResponse,
                size' = blobSize newResponse, policy = toObject (engine E) rp\<rparr>
             (timeToLive (engine E) (getDelay E + netDelay E + 2000) rp)),
          (getDelay E + netDelay E + 2000 + setDelay E,
           case cacheSet E url
                  \<lparr>text' = tx, headers = response.headers newResponse,
                     size' = blobSize newResponse, policy = toObject (engine E) rp\<rparr>
                  (timeToLive (engine E) (getDelay E + netDelay E + 2000) rp) of
             None \<Rightarrow> Dispatch ''response-revalidated'' url
           | Some e' \<Rightarrow> Unhandled e')]"
proof (cases "baseFetch E url (revalidationOptions url opts rh)")
  case (Inl e)
  then show ?thesis
    using failed [of e] stale_trace [OF assms]
    by (simp add: background_failed)
next
  case (Inr r)
  show ?thesis
  proof (cases "revalidatedPolicy (engine E) (getDelay E + netDelay E) pol
                  (optionsNew url opts) r")
    case (Inl e)
    then show ?thesis
      using policy_error [of r e] Inr stale_trace [OF assms]
      by (simp add: background_policy_error [OF Inl])
  next
    case merged: (Inr p)
    obtain rp m where p: "p = (rp, m)" by (cases p)
    note merged = merged [unfolded p]
    show ?thesis
    proof (cases "if m then Inr r else staleResponse E tx pol")
      case (Inl e)
      then have m: "m = False" and built: "staleResponse E tx pol = Inl e"
        by (simp_all split: if_splits)
      show ?thesis
        using unbuilt [of r rp e] Inr merged m built stale_trace [OF assms]
          background_unbuilt [OF merged [unfolded m] built [unfolded staleResponse_def]]
        by simp
    next
      case built: (Inr newResponse)
      show ?thesis
        using written [of r rp m newResponse] Inr merged built stale_trace [OF assms]
          background_written [OF merged built [unfolded staleResponse_def] refl refl]
        by simp
    qed
  qed
qed

text \<open>
  What is written after a revalidation that found the resource modified: the headers,
  the size and the policy of the new response, and the text of the entry revalidated.
\<close>

lemma modified_entry_written:
  assumes "staleHit E url opts tx pol rh"
    and "baseFetch E url (revalidationOptions url opts rh) = Inr r"
    and "revalidatedPolicy (engine E) (getDelay E + netDelay E) pol (optionsNew url opts) r
           = Inr (rp, True)"
  shows "filter isCacheSet (effects E url opts) =
           [CacheSet url
              \<lparr>text' = tx, headers = response.headers r,
                 size' = length (response.body r), policy = toObject (engine E) rp\<rparr>
              (timeToLive (engine E) (getDelay E + netDelay E + 2000) rp)]"
  using assms
  by (cases rule: stale_cases)
     (auto simp: effects_def blobSize_def split: option.splits)

subsection \<open>The trace of a miss\<close>

lemma resume_undefined:
  "cachedFetch_resume E now url opts (Inr JUndefined) =
     ([BaseFetch url (optionsNew url opts)],
      [(now + netDelay E,
        MissThen url (optionsNew url opts) (baseFetch E url (optionsNew url opts)))])"
  by (simp add: cachedFetch_resume_def orReject_def handleCacheMiss_def)

lemma miss_trace:
  assumes "cacheGet E url = Inr JUndefined"
  shows "wrapFetch E url opts =
           [(0, CacheGet url), (getDelay E, BaseFetch url (optionsNew url opts))] @
           run E [(getDelay E + netDelay E,
                   MissThen url (optionsNew url opts)
                     (baseFetch E url (optionsNew url opts)))]"
  by (simp add: wrapFetch_resume assms resume_undefined schedule_def)

lemma miss_then_run:
  "run E [(t, MissThen url on res)] =
     (t, FetchSettled url res) #
     (case res of
        Inl e \<Rightarrow> [(t, Settled (Inl e))]
      | Inr r \<Rightarrow>
          (case newPolicy (engine E) t on r False of
             Inl e \<Rightarrow> [(t, Settled (Inl e))]
           | Inr cp \<Rightarrow>
               if \<not> storable (engine E) cp then [(t, Settled (Inr r))]
               else [(t, Settled (Inr r)),
                     (t, CacheSet url
                           \<lparr>text' = JStr (response.body r), headers = response.headers r,
                              size' = length (response.body r),
                              policy = toObject (engine E) cp\<rparr>
                           (timeToLive (engine E) t cp))] @
                    (case cacheSet E url
                            \<lparr>text' = JStr (response.body r), headers = response.headers r,
                               size' = length (response.body r),
                               policy = toObject (engine E) cp\<rparr>
                            (timeToLive (engine E) t cp) of
                       None \<Rightarrow> []
                     | Some e \<Rightarrow> [(t + setDelay E, Unhandled e)])))"
  by (simp add: handleCacheMiss_then_def handleCacheMiss_blob_def emit_def orReject_def
        schedule_def clone_def blobSize_def cachePolicyOptions_shared_def Let_def
      split: sum.splits option.splits)

text \<open>Only the call of \<^verbatim>\<open>cachedFetch\<close> reads the Store.\<close>

lemma step_reads_nothing:
  assumes "\<not> isCachedFetch k"
  shows "filter isCacheGet (fst (step E now k)) = []
         \<and> (\<forall>x \<in> set (snd (step E now k)). \<not> isCachedFetch (snd x))"
  using assms
  by (cases k)
     (auto simp: cachedFetch_resume_def handleCacheHit_def handleCacheMiss_def
        handleCacheMiss_then_def handleCacheMiss_blob_def revalidateCacheHit_def
        revalidateCacheHit_then_def revalidateCacheHit_write_def
        orReject_def orUnhandled_def emit_def Let_def
      split: sum.splits option.splits if_splits prod.splits)

lemma set_enqueue: "set (enqueue x q) = insert x (set q)"
  by (induction q) auto

lemma set_schedule: "set (schedule new q) = set new \<union> set q"
  unfolding schedule_def
  by (induction new arbitrary: q) (auto simp: set_enqueue)

lemma untimed [simp]: "map (snd \<circ> Pair t) xs = xs"
  by (induction xs) simp_all

lemma run_reads_nothing:
  "\<forall>x \<in> set q. \<not> isCachedFetch (snd x) \<Longrightarrow> filter isCacheGet (map snd (run E q)) = []"
proof (induction E q rule: run.induct)
  case (1 E)
  then show ?case by simp
next
  case (2 E now k q)
  from "2.prems" have k: "\<not> isCachedFetch k" by simp
  have "\<forall>x \<in> set (schedule (snd (step E now k)) q). \<not> isCachedFetch (snd x)"
    using step_reads_nothing [OF k, of E now] "2.prems" by (auto simp: set_schedule)
  then have "filter isCacheGet (map snd (run E (schedule (snd (step E now k)) q))) = []"
    by (rule "2.IH")
  then show ?case
    using step_reads_nothing [OF k, of E now] by simp
qed

lemma one_read:
  "filter isCacheGet (effects E url opts) = [CacheGet url]"
proof -
  have "filter isCacheGet
          (map snd (run E [(getDelay E, AfterGet url opts (cacheGet E url))])) = []"
    by (rule run_reads_nothing) simp
  then show ?thesis
    unfolding effects_def wrapFetch_resume by simp
qed

lemma map_of_objSet: "map_of (objSet h k v) k = Some v"
  by (induction h) auto

lemma bypass_header:
  assumes "includes_str url ''without_caching.xml''"
  shows "\<exists>h. options.headers (optionsNew url opts) = Some h
              \<and> map_of h ''cache-control'' = Some ''no-cache, no-store''"
  using assms by (simp add: optionsNew_def map_of_objSet)

lemma miss_effects:
  assumes "cacheGet E url = Inr JUndefined"
  shows "filter isBaseFetch (effects E url opts) = [BaseFetch url (optionsNew url opts)]"
    and "filter isCacheSet (effects E url opts) \<noteq> [] \<Longrightarrow>
           \<exists>r cp. baseFetch E url (optionsNew url opts) = Inr r
                 \<and> newPolicy (engine E) (getDelay E + netDelay E) (optionsNew url opts) r False
                     = Inr cp
                 \<and> storable (engine E) cp"
  using assms
  by (auto simp: effects_def miss_trace miss_then_run simp del: run.simps
        split: sum.splits option.splits if_splits)

lemma hit_trace:
  assumes "cacheGet E url = Inr cacheValue" and "cacheValue \<noteq> JUndefined"
  shows "wrapFetch E url opts =
           (0, CacheGet url) #
           map (Pair (getDelay E))
             (fst (handleCacheHit E (getDelay E) url cacheValue (optionsNew url opts))) @
           run E (schedule
             (snd (handleCacheHit E (getDelay E) url cacheValue (optionsNew url opts))) [])"
  using assms by (simp add: wrapFetch_resume cachedFetch_resume_def orReject_def)

lemma optionsNew_method:
  "method' (optionsNew url opts) = map_option toUpperCase (method' opts)"
  by (simp add: optionsNew_def)

lemma optionsNew_cong:
  fixes o1 o2 :: options
  assumes "map_option toUpperCase (method' o1) = map_option toUpperCase (method' o2)"
    and "options.headers o1 = options.headers o2"
    and "options.body o1 = options.body o2"
  shows "optionsNew url o1 = optionsNew url o2"
  using assms by (cases o1; cases o2) (simp add: optionsNew_def)

lemma wrapFetch_optionsNew:
  "wrapFetch E url opts =
     (0, CacheGet url) #
     map (Pair (getDelay E))
       (fst (orReject (cacheGet E url) (\<lambda>cacheValue.
          if cacheValue \<noteq> JUndefined
          then handleCacheHit E (getDelay E) url cacheValue (optionsNew url opts)
          else handleCacheMiss E (getDelay E) url (optionsNew url opts)))) @
     run E (schedule
       (snd (orReject (cacheGet E url) (\<lambda>cacheValue.
          if cacheValue \<noteq> JUndefined
          then handleCacheHit E (getDelay E) url cacheValue (optionsNew url opts)
          else handleCacheMiss E (getDelay E) url (optionsNew url opts)))) [])"
  by (simp add: wrapFetch_resume cachedFetch_resume_def)

text \<open>Every run is a rejection at once, a miss, a fresh hit or a stale hit.\<close>

lemma run_cases:
  obtains
    (rejected) e where
      "wrapFetch E url opts = [(0, CacheGet url), (getDelay E, Settled (Inl e))]"
  | (miss) "cacheGet E url = Inr JUndefined"
  | (fresh) tx pol where "freshHit E url opts tx pol"
  | (stale) tx pol rh where "staleHit E url opts tx pol rh"
proof (cases "cacheGet E url")
  case (Inl e)
  then show ?thesis
    using rejected [of e]
    by (simp add: wrapFetch_resume cachedFetch_resume_def orReject_def schedule_def)
next
  case got: (Inr cacheValue)
  show ?thesis
  proof (cases "cacheValue = JUndefined")
    case True
    with got show ?thesis using miss by simp
  next
    case hit: False
    show ?thesis
    proof (cases "getProp cacheValue ''text''")
      case (Inl e)
      then show ?thesis
        using rejected [of e] got hit
        by (simp add: hit_trace handleCacheHit_def orReject_def schedule_def)
    next
      case tx: (Inr tx)
      show ?thesis
      proof (cases "getProp cacheValue ''policy''")
        case (Inl e)
        then show ?thesis
          using rejected [of e] got hit tx
          by (simp add: hit_trace handleCacheHit_def orReject_def schedule_def)
      next
        case po: (Inr policyObject)
        show ?thesis
        proof (cases "fromObject (engine E) policyObject")
          case (Inl e)
          then show ?thesis
            using rejected [of e] got hit tx po
            by (simp add: hit_trace handleCacheHit_def orReject_def schedule_def)
        next
          case pol: (Inr pol)
          from got hit tx po pol have cached: "cacheHit E url tx pol"
            by (simp add: cacheHit_def)
          show ?thesis
          proof (cases "satisfiesWithoutRevalidation (engine E) (getDelay E) pol
                          (optionsNew url opts)")
            case (Inl e)
            then show ?thesis
              using rejected [of e]
              by (simp add: wrapFetch_resume cacheHit_resume [OF cached] orReject_def
                    schedule_def)
          next
            case verdict: (Inr isFresh)
            show ?thesis
            proof (cases isFresh)
              case True
              with cached verdict show ?thesis
                using fresh [of tx pol] by (simp add: freshHit_def)
            next
              case False
              show ?thesis
              proof (cases "revalidationHeaders (engine E) pol (optionsNew url opts)")
                case (Inl e)
                then show ?thesis
                  using rejected [of e] verdict False
                  by (simp add: wrapFetch_resume cacheHit_resume [OF cached] orReject_def
                        schedule_def)
              next
                case (Inr rh)
                with cached verdict False show ?thesis
                  using stale [of tx pol rh] by (simp add: staleHit_def)
              qed
            qed
          qed
        qed
      qed
    qed
  qed
qed

lemma hit_not_miss:
  assumes "cacheHit E url tx pol"
  shows "cacheGet E url \<noteq> Inr JUndefined"
  using assms by (auto simp: cacheHit_def split: sum.splits)

text \<open>The requests, settlements and writes of a stale hit, and of a run that is neither a miss
  nor a stale hit.\<close>

lemma stale_effects:
  assumes "staleHit E url opts tx pol rh"
  shows "filter isBaseFetch (effects E url opts) =
           [BaseFetch url (revalidationOptions url opts rh)]"
    and "filter isSettled (effects E url opts) = [Settled (staleResponse E tx pol)]"
    and "baseFetch E url (revalidationOptions url opts rh) = Inr r \<Longrightarrow>
         revalidatedPolicy (engine E) (getDelay E + netDelay E) pol (optionsNew url opts) r
           = Inr (rp, m) \<Longrightarrow>
         (if m then Inr r else staleResponse E tx pol) = Inr newResponse \<Longrightarrow>
         filter isCacheSet (effects E url opts) =
           [CacheSet url
              \<lparr>text' = tx, headers = response.headers newResponse,
                 size' = blobSize newResponse, policy = toObject (engine E) rp\<rparr>
              (timeToLive (engine E) (getDelay E + netDelay E + 2000) rp)]"
  using assms
  by (cases rule: stale_cases; auto simp: effects_def split: option.splits if_splits)+

lemma idle_effects:
  assumes "cacheGet E url \<noteq> Inr JUndefined"
    and "\<forall>tx pol rh. \<not> staleHit E url opts tx pol rh"
  shows "filter isBaseFetch (effects E url opts) = []"
    and "filter isCacheSet (effects E url opts) = []"
  using assms
  by (cases rule: run_cases [of E url opts];
      auto simp: effects_def fresh_trace)+

text \<open>How a miss and a hit begin.\<close>

lemma miss_order:
  assumes "cacheGet E url = Inr JUndefined"
  shows "take 2 (wrapFetch E url opts) =
           [(0, CacheGet url), (getDelay E, BaseFetch url (optionsNew url opts))]"
    and "precedes isFetchSettled isSettled (effects E url opts)"
  using assms
  by (simp_all add: effects_def miss_trace miss_then_run del: run.simps)

lemma hit_prefix:
  assumes "cacheGet E url = Inr cacheValue" and "cacheValue \<noteq> JUndefined"
  shows "take 3 (wrapFetch E url opts) =
           (0, CacheGet url) #
           (case getProp cacheValue ''text'' of
              Inl e \<Rightarrow> [(getDelay E, Settled (Inl e))]
            | Inr tx \<Rightarrow>
           (case getProp cacheValue ''policy'' of
              Inl e \<Rightarrow> [(getDelay E, Settled (Inl e))]
            | Inr policyObject \<Rightarrow>
           (case fromObject (engine E) policyObject of
              Inl e \<Rightarrow> [(getDelay E, Settled (Inl e))]
            | Inr pol \<Rightarrow>
           (case satisfiesWithoutRevalidation (engine E) (getDelay E) pol
                   (optionsNew url opts) of
              Inl e \<Rightarrow> [(getDelay E, Settled (Inl e))]
            | Inr fresh \<Rightarrow>
                if fresh
                then [(getDelay E,
                       Settled (Response_new E tx
                                  (responseHeaders (engine E) (getDelay E) pol)))]
                else
           (case revalidationHeaders (engine E) pol (optionsNew url opts) of
              Inl e \<Rightarrow> [(getDelay E, Settled (Inl e))]
            | Inr rh \<Rightarrow>
                [(getDelay E,
                  BaseFetch url ((optionsNew url opts)\<lparr>options.headers := Some rh\<rparr>)),
                 (getDelay E,
                  Settled (Response_new E tx
                             (responseHeaders (engine E) (getDelay E) pol)))])))))"
    and "\<not> precedes isFetchSettled isSettled (effects E url opts)"
  using assms
  by (simp_all add: effects_def hit_trace handleCacheHit_def revalidateCacheHit_def
        orReject_def schedule_def Let_def split: sum.splits)

subsection \<open>The stub environment\<close>

lemmas stub_defs =
  stubEnv_def stubEngine_def stubStore_def stubFetch_def storedEntry_def getOptions_def
  stub_toObject_def stub_fromObject_def headersObject_def stub_satisfies_def
  stub_revalidationHeaders_def stub_revalidatedPolicy_def stub_newPolicy_def
  requestHeaders_def stub_constructHeaders_def validHeader_def isTokenChar_def
  toLowerChar_def

lemmas code_defs =
  wrapFetch_def cachedFetch_def cachedFetch_resume_def handleCacheHit_def
  handleCacheMiss_def handleCacheMiss_then_def handleCacheMiss_blob_def
  revalidateCacheHit_def revalidateCacheHit_then_def revalidateCacheHit_write_def
  optionsNew_def orReject_def orUnhandled_def emit_def schedule_def Response_new_def
  clone_def blobSize_def toUpperCase_def toUpperChar_def cachePolicyOptions_shared_def
  Let_def

lemma stub_fresh:
  "freshHit stubEnv ''/fresh.xml'' getOptions (JStr ''<doc/>'')
     \<lparr>resHeaders = [(''cache-control'', ''immutable'')], noStore = False\<rparr>"
  by (simp add: freshHit_def cacheHit_def stub_defs optionsNew_def)

lemma stub_badfresh:
  "freshHit stubEnv ''/badfresh.xml'' getOptions (JStr ''<doc/>'')
     \<lparr>resHeaders = [(''bad name'', ''x''), (''cache-control'', ''immutable'')],
        noStore = False\<rparr>"
  by (simp add: freshHit_def cacheHit_def stub_defs optionsNew_def)

lemma stub_stale:
  "staleHit stubEnv ''/stale.xml'' getOptions (JStr ''old'')
     \<lparr>resHeaders = [(''etag'', ''v1'')], noStore = False\<rparr>
     [(''accept'', ''*/*''), (''if-none-match'', ''v1'')]"
  by (simp add: staleHit_def cacheHit_def stub_defs optionsNew_def)

lemma stub_same:
  "staleHit stubEnv ''/same.xml'' getOptions (JStr ''old'')
     \<lparr>resHeaders = [(''etag'', ''v1'')], noStore = False\<rparr>
     [(''accept'', ''*/*''), (''if-none-match'', ''v1'')]"
  by (simp add: staleHit_def cacheHit_def stub_defs optionsNew_def)

lemma stub_down:
  "staleHit stubEnv ''/down.xml'' getOptions (JStr ''old'')
     \<lparr>resHeaders = [(''etag'', ''v1'')], noStore = False\<rparr>
     [(''accept'', ''*/*''), (''if-none-match'', ''v1'')]"
  by (simp add: staleHit_def cacheHit_def stub_defs optionsNew_def)

lemma stub_badstale:
  "staleHit stubEnv ''/badstale.xml'' getOptions (JStr ''old'')
     \<lparr>resHeaders = [(''bad name'', ''x''), (''etag'', ''v1'')], noStore = False\<rparr>
     [(''accept'', ''*/*''), (''if-none-match'', ''v1'')]"
  by (simp add: staleHit_def cacheHit_def stub_defs optionsNew_def)

lemma stub_bypass_stale:
  "staleHit stubEnv ''/old_without_caching.xml'' getOptions (JStr ''old'')
     \<lparr>resHeaders = [(''etag'', ''v1'')], noStore = False\<rparr>
     [(''accept'', ''*/*''), (''cache-control'', ''no-cache, no-store''),
      (''if-none-match'', ''v1'')]"
  by (simp add: staleHit_def cacheHit_def stub_defs optionsNew_def)

lemma stub_built:
  "constructHeaders stubEnv (JStr ''old'') [(''etag'', ''v1'')] =
     Inr [(''etag'', ''v1''), (''content-type'', ''text/plain;charset=UTF-8'')]"
  "constructHeaders stubEnv (JStr ''<doc/>'') [(''cache-control'', ''immutable'')] =
     Inr [(''cache-control'', ''immutable''), (''content-type'', ''text/plain;charset=UTF-8'')]"
  "constructHeaders stubEnv (JStr ''old'')
     [(''etag'', ''v1''), (''cache-control'', ''immutable'')] =
     Inr [(''etag'', ''v1''), (''cache-control'', ''immutable''),
          (''content-type'', ''text/plain;charset=UTF-8'')]"
  by (simp_all add: stub_defs)

lemma stub_unbuilt:
  "constructHeaders stubEnv tx ((''bad name'', ''x'') # hs) = Inl (TypeError ''Invalid header'')"
  by (simp add: stub_defs)

text \<open>The runs of the stub environment.\<close>

lemma stub_run_stale:
  "wrapFetch stubEnv ''/stale.xml'' getOptions =
    [(0, CacheGet ''/stale.xml''),
     (1, BaseFetch ''/stale.xml''
       \<lparr>method' = Some ''GET'',
          headers = Some [(''accept'', ''*/*''), (''if-none-match'', ''v1'')],
          body = None\<rparr>),
     (1, Settled (Inr \<lparr>status = 200,
                       headers = [(''etag'', ''v1''),
                                  (''content-type'', ''text/plain;charset=UTF-8'')],
                       body = ''old''\<rparr>)),
     (11, Dispatch ''response-stale-revalidating'' ''/stale.xml''),
     (51, FetchSettled ''/stale.xml''
       (Inr \<lparr>status = 200, headers = [(''etag'', ''v2'')], body = ''new!''\<rparr>)),
     (2051, CacheSet ''/stale.xml''
       \<lparr>text' = JStr ''old'', headers = [(''etag'', ''v2'')], size' = 4,
          policy = JObj [(''v'', JStr ''1''), (''resh'', JObj [(''etag'', JStr ''v2'')])]\<rparr>
       60000),
     (2053, Dispatch ''response-revalidated'' ''/stale.xml'')]"
  by (simp add: code_defs stub_defs)

lemma stub_run_same:
  "wrapFetch stubEnv ''/same.xml'' getOptions =
    [(0, CacheGet ''/same.xml''),
     (1, BaseFetch ''/same.xml''
       \<lparr>method' = Some ''GET'',
          headers = Some [(''accept'', ''*/*''), (''if-none-match'', ''v1'')],
          body = None\<rparr>),
     (1, Settled (Inr \<lparr>status = 200,
                       headers = [(''etag'', ''v1''),
                                  (''content-type'', ''text/plain;charset=UTF-8'')],
                       body = ''old''\<rparr>)),
     (11, Dispatch ''response-stale-revalidating'' ''/same.xml''),
     (51, FetchSettled ''/same.xml''
       (Inr \<lparr>status = 304,
              headers = [(''etag'', ''v1''), (''cache-control'', ''immutable'')],
              body = []\<rparr>)),
     (2051, CacheSet ''/same.xml''
       \<lparr>text' = JStr ''old'',
          headers = [(''etag'', ''v1''), (''content-type'', ''text/plain;charset=UTF-8'')],
          size' = 3,
          policy = JObj [(''v'', JStr ''1''),
                         (''resh'', JObj [(''etag'', JStr ''v1''),
                                          (''cache-control'', JStr ''immutable'')])]\<rparr>
       60000),
     (2053, Dispatch ''response-revalidated'' ''/same.xml'')]"
  by (simp add: code_defs stub_defs)

lemma stub_run_badstale:
  "wrapFetch stubEnv ''/badstale.xml'' getOptions =
    [(0, CacheGet ''/badstale.xml''),
     (1, BaseFetch ''/badstale.xml''
       \<lparr>method' = Some ''GET'',
          headers = Some [(''accept'', ''*/*''), (''if-none-match'', ''v1'')],
          body = None\<rparr>),
     (1, Settled (Inl (TypeError ''Invalid header''))),
     (11, Dispatch ''response-stale-revalidating'' ''/badstale.xml''),
     (51, FetchSettled ''/badstale.xml''
       (Inr \<lparr>status = 304,
              headers = [(''etag'', ''v1''), (''cache-control'', ''immutable'')],
              body = []\<rparr>)),
     (51, Unhandled (TypeError ''Invalid header''))]"
  by (simp add: code_defs stub_defs)

lemma stub_run_broken:
  "wrapFetch stubEnv ''/broken.xml'' getOptions =
    [(0, CacheGet ''/broken.xml''), (1, Settled (Inl (Error ''Invalid serialization'')))]"
  by (simp add: code_defs stub_defs)

lemma stub_run_bypass:
  "wrapFetch stubEnv ''/feed_without_caching.xml'' getOptions =
    [(0, CacheGet ''/feed_without_caching.xml''),
     (1, BaseFetch ''/feed_without_caching.xml''
       \<lparr>method' = Some ''GET'',
          headers = Some [(''accept'', ''*/*''), (''cache-control'', ''no-cache, no-store'')],
          body = None\<rparr>),
     (51, FetchSettled ''/feed_without_caching.xml''
       (Inr \<lparr>status = 200, headers = [(''etag'', ''v1'')], body = ''<doc/>''\<rparr>)),
     (51, Settled (Inr \<lparr>status = 200, headers = [(''etag'', ''v1'')], body = ''<doc/>''\<rparr>))]"
  by (simp add: code_defs stub_defs)

lemma stub_run_bypass_stale:
  "wrapFetch stubEnv ''/old_without_caching.xml'' getOptions =
    [(0, CacheGet ''/old_without_caching.xml''),
     (1, BaseFetch ''/old_without_caching.xml''
       \<lparr>method' = Some ''GET'',
          headers = Some [(''accept'', ''*/*''), (''cache-control'', ''no-cache, no-store''),
                          (''if-none-match'', ''v1'')],
          body = None\<rparr>),
     (1, Settled (Inr \<lparr>status = 200,
                       headers = [(''etag'', ''v1''),
                                  (''content-type'', ''text/plain;charset=UTF-8'')],
                       body = ''old''\<rparr>)),
     (11, Dispatch ''response-stale-revalidating'' ''/old_without_caching.xml''),
     (51, FetchSettled ''/old_without_caching.xml''
       (Inr \<lparr>status = 200, headers = [(''etag'', ''v1'')], body = ''<doc/>''\<rparr>)),
     (2051, CacheSet ''/old_without_caching.xml''
       \<lparr>text' = JStr ''old'', headers = [(''etag'', ''v1'')], size' = 6,
          policy = JObj [(''v'', JStr ''1''), (''resh'', JObj [(''etag'', JStr ''v1'')])]\<rparr>
       60000),
     (2053, Dispatch ''response-revalidated'' ''/old_without_caching.xml'')]"
  by (simp add: code_defs stub_defs)

lemma stub_run_null:
  "wrapFetch stubEnv ''/null.xml'' getOptions =
    [(0, CacheGet ''/null.xml''),
     (1, Settled (Inl (TypeError ''Cannot read properties of null'')))]"
  by (simp add: code_defs stub_defs)

lemma stub_run_string:
  "wrapFetch stubEnv ''/string.xml'' getOptions =
    [(0, CacheGet ''/string.xml''), (1, Settled (Inl (Error ''Invalid serialization'')))]"
  by (simp add: code_defs stub_defs)

lemma stub_run_miss:
  "wrapFetch stubEnv ''/doc.xml'' getOptions =
    [(0, CacheGet ''/doc.xml''),
     (1, BaseFetch ''/doc.xml''
       \<lparr>method' = Some ''GET'', headers = Some [(''accept'', ''*/*'')], body = None\<rparr>),
     (51, FetchSettled ''/doc.xml''
       (Inr \<lparr>status = 200, headers = [(''etag'', ''v1'')], body = ''<doc/>''\<rparr>)),
     (51, Settled (Inr \<lparr>status = 200, headers = [(''etag'', ''v1'')], body = ''<doc/>''\<rparr>)),
     (51, CacheSet ''/doc.xml''
       \<lparr>text' = JStr ''<doc/>'', headers = [(''etag'', ''v1'')], size' = 6,
          policy = JObj [(''v'', JStr ''1''), (''resh'', JObj [(''etag'', JStr ''v1'')])]\<rparr>
       60000)]"
  by (simp add: code_defs stub_defs)

section \<open>The claims\<close>

subsection \<open>Fresh hits\<close>

text \<open>
  Claim C5. For every stored entry that is still within its freshness lifetime
  (\<^verbatim>\<open>satisfiesWithoutRevalidation\<close> is true), the returned response is built from exactly
  the stored body text and the headers reconstructed from the stored policy, and the
  transport \<^verbatim>\<open>baseFetch\<close> is not called at all. The run consists of the Store lookup
  and the settling of the caller's promise with what
  \<^verbatim>\<open>new Response(text, { headers: policy.responseHeaders() })\<close> gives: a response with
  status 200, the stored text as body and the headers the constructor makes of the
  reconstructed ones, or the rejection with the error the constructor throws.
\<close>

theorem C5_fresh_hit_served_without_transport:
  assumes "freshHit E url opts tx pol"
  shows "wrapFetch E url opts =
           [(0, CacheGet url),
            (getDelay E,
             Settled (Response_new E tx (responseHeaders (engine E) (getDelay E) pol)))]
         \<and> filter isBaseFetch (effects E url opts) = []
         \<and> (constructHeaders E tx (responseHeaders (engine E) (getDelay E) pol) = Inr hs \<longrightarrow>
              filter isSettled (effects E url opts) =
                [Settled (Inr \<lparr>status = 200, headers = hs, body = bodyText tx\<rparr>)])
         \<and> (constructHeaders E tx (responseHeaders (engine E) (getDelay E) pol) = Inl e \<longrightarrow>
              filter isSettled (effects E url opts) = [Settled (Inl e)])"
  using fresh_trace [OF assms]
  by (simp add: effects_def staleResponse_def Response_new_def)

theorem C5_fresh_hit_witness:
  "freshHit stubEnv ''/fresh.xml'' getOptions (JStr ''<doc/>'')
     \<lparr>resHeaders = [(''cache-control'', ''immutable'')], noStore = False\<rparr>
   \<and> wrapFetch stubEnv ''/fresh.xml'' getOptions =
       [(0, CacheGet ''/fresh.xml''),
        (1, Settled (Inr \<lparr>status = 200,
                          headers = [(''cache-control'', ''immutable''),
                                     (''content-type'', ''text/plain;charset=UTF-8'')],
                          body = ''<doc/>''\<rparr>))]
   \<and> filter isBaseFetch (effects stubEnv ''/fresh.xml'' getOptions) = []
   \<and> freshHit stubEnv ''/badfresh.xml'' getOptions (JStr ''<doc/>'')
       \<lparr>resHeaders = [(''bad name'', ''x''), (''cache-control'', ''immutable'')],
          noStore = False\<rparr>
   \<and> wrapFetch stubEnv ''/badfresh.xml'' getOptions =
       [(0, CacheGet ''/badfresh.xml''), (1, Settled (Inl (TypeError ''Invalid header'')))]"
proof -
  have served: "wrapFetch stubEnv ''/fresh.xml'' getOptions =
       [(0, CacheGet ''/fresh.xml''),
        (1, Settled (Inr \<lparr>status = 200,
                          headers = [(''cache-control'', ''immutable''),
                                     (''content-type'', ''text/plain;charset=UTF-8'')],
                          body = ''<doc/>''\<rparr>))]
     \<and> filter isBaseFetch (effects stubEnv ''/fresh.xml'' getOptions) = []"
    using C5_fresh_hit_served_without_transport [OF stub_fresh]
    by (simp add: Response_new_def stubEnv_def stubEngine_def stub_constructHeaders_def
          validHeader_def isTokenChar_def toLowerChar_def)
  have rejected: "wrapFetch stubEnv ''/badfresh.xml'' getOptions =
       [(0, CacheGet ''/badfresh.xml''), (1, Settled (Inl (TypeError ''Invalid header'')))]"
    using C5_fresh_hit_served_without_transport [OF stub_badfresh]
    by (simp add: Response_new_def stubEnv_def stubEngine_def stub_constructHeaders_def
          validHeader_def isTokenChar_def toLowerChar_def)
  show ?thesis
    using stub_fresh stub_badfresh served rejected by simp
qed

subsection \<open>Stale hits\<close>

text \<open>
  Claim C4. For every cache hit on a stale entry, the response returned to the caller has
  a body equal to the stored entry's text and the headers reconstructed from the stored
  policy, and it is returned without awaiting the background revalidation. The caller's
  promise is settled once, in the task that calls the transport, so before the
  transport's promise settles and before any write to the Store, with what
  \<^verbatim>\<open>new Response(text, { headers: policy.responseHeaders() })\<close> gives: a response with
  status 200, the stored text as body and the headers the constructor makes of the
  reconstructed ones, or the rejection with the error the constructor throws.
\<close>

theorem C4_stale_hit_served_at_once:
  assumes "staleHit E url opts tx pol rh"
  shows "take 3 (wrapFetch E url opts) =
           [(0, CacheGet url),
            (getDelay E, BaseFetch url (revalidationOptions url opts rh)),
            (getDelay E,
             Settled (Response_new E tx (responseHeaders (engine E) (getDelay E) pol)))]
         \<and> (constructHeaders E tx (responseHeaders (engine E) (getDelay E) pol) = Inr hs \<longrightarrow>
              filter isSettled (effects E url opts) =
                [Settled (Inr \<lparr>status = 200, headers = hs, body = bodyText tx\<rparr>)])
         \<and> (constructHeaders E tx (responseHeaders (engine E) (getDelay E) pol) = Inl e \<longrightarrow>
              filter isSettled (effects E url opts) = [Settled (Inl e)])
         \<and> precedes isSettled isFetchSettled (effects E url opts)
         \<and> precedes isSettled isCacheSet (effects E url opts)"
  using assms
  by (cases rule: stale_cases)
     (simp_all add: effects_def staleResponse_def Response_new_def
        split: option.splits sum.splits if_splits)

theorem C4_stale_hit_witness:
  "staleHit stubEnv ''/stale.xml'' getOptions (JStr ''old'')
     \<lparr>resHeaders = [(''etag'', ''v1'')], noStore = False\<rparr>
     [(''accept'', ''*/*''), (''if-none-match'', ''v1'')]
   \<and> filter isSettled (effects stubEnv ''/stale.xml'' getOptions) =
       [Settled (Inr \<lparr>status = 200,
                       headers = [(''etag'', ''v1''),
                                  (''content-type'', ''text/plain;charset=UTF-8'')],
                       body = ''old''\<rparr>)]
   \<and> precedes isSettled isFetchSettled (effects stubEnv ''/stale.xml'' getOptions)
   \<and> precedes isSettled isCacheSet (effects stubEnv ''/stale.xml'' getOptions)
   \<and> staleHit stubEnv ''/badstale.xml'' getOptions (JStr ''old'')
       \<lparr>resHeaders = [(''bad name'', ''x''), (''etag'', ''v1'')], noStore = False\<rparr>
       [(''accept'', ''*/*''), (''if-none-match'', ''v1'')]
   \<and> filter isSettled (effects stubEnv ''/badstale.xml'' getOptions) =
       [Settled (Inl (TypeError ''Invalid header''))]"
proof -
  have built: "constructHeaders stubEnv (JStr ''old'')
        (responseHeaders (engine stubEnv) (getDelay stubEnv)
           \<lparr>resHeaders = [(''etag'', ''v1'')], noStore = False\<rparr>) =
      Inr [(''etag'', ''v1''), (''content-type'', ''text/plain;charset=UTF-8'')]"
    using stub_built (1) by (simp add: stubEnv_def stubEngine_def)
  have unbuilt: "constructHeaders stubEnv (JStr ''old'')
        (responseHeaders (engine stubEnv) (getDelay stubEnv)
           \<lparr>resHeaders = [(''bad name'', ''x''), (''etag'', ''v1'')], noStore = False\<rparr>) =
      Inl (TypeError ''Invalid header'')"
    using stub_unbuilt [of "JStr ''old''" "[(''etag'', ''v1'')]"]
    by (simp add: stubEnv_def stubEngine_def)
  note served = C4_stale_hit_served_at_once [OF stub_stale,
      of "[(''etag'', ''v1''), (''content-type'', ''text/plain;charset=UTF-8'')]"]
  note rejected = C4_stale_hit_served_at_once [OF stub_badstale, of _ "TypeError ''Invalid header''"]
  show ?thesis
    using stub_stale stub_badstale built unbuilt
      served [THEN conjunct2, THEN conjunct1]
      served [THEN conjunct2, THEN conjunct2, THEN conjunct2]
      rejected [THEN conjunct2, THEN conjunct2, THEN conjunct1]
    by simp
qed

text \<open>
  Claim C7. For every stale cache hit whose background revalidation fetch fails (the
  transport promise rejects), no \<^verbatim>\<open>set\<close> is performed on the Store, the stale
  response already returned to the caller stands (the caller's promise is settled once,
  with what the constructor gave for the stored text and the reconstructed headers),
  the failure is not surfaced to the caller (it ends as an unhandled rejection), and no
  retry is scheduled (the transport is called once).
\<close>

theorem C7_failed_revalidation_leaves_store:
  assumes "staleHit E url opts tx pol rh"
    and "baseFetch E url (revalidationOptions url opts rh) = Inl e"
  shows "filter isCacheSet (effects E url opts) = []
         \<and> filter isSettled (effects E url opts) = [Settled (staleResponse E tx pol)]
         \<and> filter isBaseFetch (effects E url opts) =
             [BaseFetch url (revalidationOptions url opts rh)]
         \<and> Unhandled e \<in> set (effects E url opts)"
  using assms
  by (cases rule: stale_cases) (simp_all add: effects_def)

theorem C7_failed_revalidation_witness:
  "staleHit stubEnv ''/down.xml'' getOptions (JStr ''old'')
     \<lparr>resHeaders = [(''etag'', ''v1'')], noStore = False\<rparr>
     [(''accept'', ''*/*''), (''if-none-match'', ''v1'')]
   \<and> baseFetch stubEnv ''/down.xml''
        (revalidationOptions ''/down.xml'' getOptions
           [(''accept'', ''*/*''), (''if-none-match'', ''v1'')])
       = Inl (TypeError ''Network request failed'')
   \<and> filter isCacheSet (effects stubEnv ''/down.xml'' getOptions) = []
   \<and> filter isSettled (effects stubEnv ''/down.xml'' getOptions) =
       [Settled (Inr \<lparr>status = 200,
                       headers = [(''etag'', ''v1''),
                                  (''content-type'', ''text/plain;charset=UTF-8'')],
                       body = ''old''\<rparr>)]
   \<and> Unhandled (TypeError ''Network request failed'')
       \<in> set (effects stubEnv ''/down.xml'' getOptions)"
proof -
  have down: "baseFetch stubEnv ''/down.xml''
        (revalidationOptions ''/down.xml'' getOptions
           [(''accept'', ''*/*''), (''if-none-match'', ''v1'')])
       = Inl (TypeError ''Network request failed'')"
    by (simp add: stubEnv_def stubFetch_def)
  have served: "staleResponse stubEnv (JStr ''old'')
        \<lparr>resHeaders = [(''etag'', ''v1'')], noStore = False\<rparr> =
      Inr \<lparr>status = 200,
            headers = [(''etag'', ''v1''), (''content-type'', ''text/plain;charset=UTF-8'')],
            body = ''old''\<rparr>"
    using stub_built (1)
    by (simp add: staleResponse_def Response_new_def) (simp add: stubEnv_def stubEngine_def)
  show ?thesis
    using stub_down down C7_failed_revalidation_leaves_store [OF stub_down down]
    by (simp add: served)
qed




subsection \<open>The entry written after revalidation\<close>

text \<open>
  Claim C1. For every stale cache hit whose revalidation response indicates that the
  resource was modified, the entry written to the Store should equal the new response in
  full: body text, headers and size. The code takes the headers, the size and the policy
  from the new response and the text from the entry it revalidated. On the stub
  environment the transport answers the stale entry \<^verbatim>\<open>/stale.xml\<close> (text
  \<^verbatim>\<open>old\<close>) with the body \<^verbatim>\<open>new!\<close>, which the engine finds modified; the entry
  written has the size 4 of the new body and the text \<^verbatim>\<open>old\<close>. The miss path
  (\<open>handleCacheMiss_blob\<close>) stores the text of the response it caches.
\<close>

theorem C1_modified_entry_keeps_stale_text:
  "baseFetch stubEnv ''/stale.xml''
     (revalidationOptions ''/stale.xml'' getOptions
        [(''accept'', ''*/*''), (''if-none-match'', ''v1'')])
     = Inr \<lparr>status = 200, headers = [(''etag'', ''v2'')], body = ''new!''\<rparr>
   \<and> revalidatedPolicy (engine stubEnv) 51
         \<lparr>resHeaders = [(''etag'', ''v1'')], noStore = False\<rparr>
         (optionsNew ''/stale.xml'' getOptions)
         \<lparr>status = 200, headers = [(''etag'', ''v2'')], body = ''new!''\<rparr>
       = Inr (\<lparr>resHeaders = [(''etag'', ''v2'')], noStore = False\<rparr>, True)
   \<and> filter isCacheSet (effects stubEnv ''/stale.xml'' getOptions) =
       [CacheSet ''/stale.xml''
          \<lparr>text' = JStr ''old'', headers = [(''etag'', ''v2'')], size' = 4,
             policy = JObj [(''v'', JStr ''1''), (''resh'', JObj [(''etag'', JStr ''v2'')])]\<rparr>
          60000]"
  by (simp add: effects_def stub_run_stale)
     (simp add: stub_defs revalidationOptions_def optionsNew_def)

text \<open>
  Claim C6, as stated: after a revalidation that finds the resource not modified, the
  entry's headers are refreshed per the 304-equivalent merge rule. It fails: the merge is
  in the revalidated policy only. On the stub environment the 304 response for
  \<^verbatim>\<open>/same.xml\<close> brings a \<^verbatim>\<open>cache-control\<close> header and the revalidated policy has
  it; the headers of the entry written are those of the response built from the stale
  policy, without it, and not those a response built from the revalidated policy would
  have.
\<close>

theorem C6_headers_not_merged_counterexample:
  "revalidatedPolicy (engine stubEnv) 51
      \<lparr>resHeaders = [(''etag'', ''v1'')], noStore = False\<rparr>
      (optionsNew ''/same.xml'' getOptions)
      \<lparr>status = 304, headers = [(''etag'', ''v1''), (''cache-control'', ''immutable'')],
         body = []\<rparr>
    = Inr (\<lparr>resHeaders = [(''etag'', ''v1''), (''cache-control'', ''immutable'')],
             noStore = False\<rparr>, False)
   \<and> filter isCacheSet (effects stubEnv ''/same.xml'' getOptions) =
       [CacheSet ''/same.xml''
          \<lparr>text' = JStr ''old'',
             headers = [(''etag'', ''v1''), (''content-type'', ''text/plain;charset=UTF-8'')],
             size' = 3,
             policy = JObj [(''v'', JStr ''1''),
                            (''resh'', JObj [(''etag'', JStr ''v1''),
                                             (''cache-control'', JStr ''immutable'')])]\<rparr>
          60000]
   \<and> Response_new stubEnv (JStr ''old'')
        (responseHeaders (engine stubEnv) 2051
           \<lparr>resHeaders = [(''etag'', ''v1''), (''cache-control'', ''immutable'')],
              noStore = False\<rparr>)
       = Inr \<lparr>status = 200,
               headers = [(''etag'', ''v1''), (''cache-control'', ''immutable''),
                          (''content-type'', ''text/plain;charset=UTF-8'')],
               body = ''old''\<rparr>"
  by (simp add: effects_def stub_run_same)
     (simp add: stub_defs optionsNew_def Response_new_def)

text \<open>
  Claim C6, amended. For every stale cache hit whose revalidation response indicates no
  modification, the text stored in the cache entry after revalidation is the text stored
  before and the policy snapshot is replaced by the revalidated policy, while the entry's
  headers are those of the response that the constructor builds from the stored text and
  the headers reconstructed from the stale policy when the hit was served: they do not
  depend on the revalidation response, whose merged headers are in the policy snapshot.
  The size is that of the stored text. When the constructor does not accept the
  reconstructed headers, nothing is written and its error goes unhandled.
\<close>

theorem C6_not_modified_entry:
  assumes "staleHit E url opts tx pol rh"
    and "baseFetch E url (revalidationOptions url opts rh) = Inr r"
    and "revalidatedPolicy (engine E) (getDelay E + netDelay E) pol (optionsNew url opts) r
           = Inr (rp, False)"
  shows "(constructHeaders E tx (responseHeaders (engine E) (getDelay E) pol) = Inr hs \<longrightarrow>
            filter isCacheSet (effects E url opts) =
              [CacheSet url
                 \<lparr>text' = tx, headers = hs, size' = length (bodyText tx),
                    policy = toObject (engine E) rp\<rparr>
                 (timeToLive (engine E) (getDelay E + netDelay E + 2000) rp)])
         \<and> (constructHeaders E tx (responseHeaders (engine E) (getDelay E) pol) = Inl e \<longrightarrow>
              filter isCacheSet (effects E url opts) = []
              \<and> Unhandled e \<in> set (effects E url opts))"
  using assms
  by (cases rule: stale_cases)
     (auto simp: effects_def staleResponse_def Response_new_def blobSize_def
        split: option.splits sum.splits)

theorem C6_not_modified_witness:
  "staleHit stubEnv ''/same.xml'' getOptions (JStr ''old'')
     \<lparr>resHeaders = [(''etag'', ''v1'')], noStore = False\<rparr>
     [(''accept'', ''*/*''), (''if-none-match'', ''v1'')]
   \<and> filter isCacheSet (effects stubEnv ''/same.xml'' getOptions) =
       [CacheSet ''/same.xml''
          \<lparr>text' = JStr ''old'',
             headers = [(''etag'', ''v1''), (''content-type'', ''text/plain;charset=UTF-8'')],
             size' = 3,
             policy = JObj [(''v'', JStr ''1''),
                            (''resh'', JObj [(''etag'', JStr ''v1''),
                                             (''cache-control'', JStr ''immutable'')])]\<rparr>
          60000]
   \<and> staleHit stubEnv ''/badstale.xml'' getOptions (JStr ''old'')
       \<lparr>resHeaders = [(''bad name'', ''x''), (''etag'', ''v1'')], noStore = False\<rparr>
       [(''accept'', ''*/*''), (''if-none-match'', ''v1'')]
   \<and> filter isCacheSet (effects stubEnv ''/badstale.xml'' getOptions) = []
   \<and> Unhandled (TypeError ''Invalid header'')
       \<in> set (effects stubEnv ''/badstale.xml'' getOptions)"
proof -
  have fetched: "baseFetch stubEnv url
       (revalidationOptions url getOptions [(''accept'', ''*/*''), (''if-none-match'', ''v1'')])
     = Inr \<lparr>status = 304, headers = [(''etag'', ''v1''), (''cache-control'', ''immutable'')],
             body = []\<rparr>"
    if "url = ''/same.xml'' \<or> url = ''/badstale.xml''" for url
    using that by (auto simp: stubEnv_def stubFetch_def)
  have merged: "revalidatedPolicy (engine stubEnv) (getDelay stubEnv + netDelay stubEnv)
       \<lparr>resHeaders = hs, noStore = False\<rparr> (optionsNew url getOptions)
       \<lparr>status = 304, headers = [(''etag'', ''v1''), (''cache-control'', ''immutable'')],
          body = []\<rparr>
     = Inr (\<lparr>resHeaders = objSet (objSet hs ''etag'' ''v1'') ''cache-control'' ''immutable'',
              noStore = False\<rparr>, False)" for hs url
    by (simp add: stub_defs optionsNew_def)
  have built: "constructHeaders stubEnv (JStr ''old'')
        (responseHeaders (engine stubEnv) (getDelay stubEnv)
           \<lparr>resHeaders = [(''etag'', ''v1'')], noStore = False\<rparr>) =
      Inr [(''etag'', ''v1''), (''content-type'', ''text/plain;charset=UTF-8'')]"
    using stub_built (1) by (simp add: stubEnv_def stubEngine_def)
  have unbuilt: "constructHeaders stubEnv (JStr ''old'')
        (responseHeaders (engine stubEnv) (getDelay stubEnv)
           \<lparr>resHeaders = [(''bad name'', ''x''), (''etag'', ''v1'')], noStore = False\<rparr>) =
      Inl (TypeError ''Invalid header'')"
    using stub_unbuilt [of "JStr ''old''" "[(''etag'', ''v1'')]"]
    by (simp add: stubEnv_def stubEngine_def)
  have written: "filter isCacheSet (effects stubEnv ''/same.xml'' getOptions) =
       [CacheSet ''/same.xml''
          \<lparr>text' = JStr ''old'',
             headers = [(''etag'', ''v1''), (''content-type'', ''text/plain;charset=UTF-8'')],
             size' = 3,
             policy = JObj [(''v'', JStr ''1''),
                            (''resh'', JObj [(''etag'', JStr ''v1''),
                                             (''cache-control'', JStr ''immutable'')])]\<rparr>
          60000]"
    using C6_not_modified_entry [OF stub_same fetched merged, THEN conjunct1] built
    by (simp add: stub_defs)
  have unwritten: "filter isCacheSet (effects stubEnv ''/badstale.xml'' getOptions) = []
      \<and> Unhandled (TypeError ''Invalid header'')
          \<in> set (effects stubEnv ''/badstale.xml'' getOptions)"
    using C6_not_modified_entry [OF stub_badstale fetched merged, THEN conjunct2] unbuilt
    by simp
  show ?thesis
    using stub_same stub_badstale written unwritten by simp
qed

subsection \<open>The no-store override\<close>

text \<open>
  Claim C2, as stated: for every request whose URL contains \<^verbatim>\<open>without_caching.xml\<close>
  no Store read and no Store write is ever performed. It fails on both counts:
  \<^verbatim>\<open>cachedFetch\<close> awaits \<^verbatim>\<open>cache.get(url)\<close> in its first line, before it looks at
  the URL, and an entry that the Store holds for such a URL is used as any other. On the
  stub environment the stale entry of \<^verbatim>\<open>/old_without_caching.xml\<close> is read, served,
  revalidated with a request that carries the header, and written back.
\<close>

theorem C2_bypass_reads_and_writes_counterexample:
  "includes_str ''/old_without_caching.xml'' ''without_caching.xml''
   \<and> filter isCacheGet (effects stubEnv ''/old_without_caching.xml'' getOptions) =
       [CacheGet ''/old_without_caching.xml'']
   \<and> filter isCacheSet (effects stubEnv ''/old_without_caching.xml'' getOptions) =
       [CacheSet ''/old_without_caching.xml''
          \<lparr>text' = JStr ''old'', headers = [(''etag'', ''v1'')], size' = 6,
             policy = JObj [(''v'', JStr ''1''), (''resh'', JObj [(''etag'', JStr ''v1'')])]\<rparr>
          60000]"
  by (simp add: effects_def stub_run_bypass_stale)

text \<open>
  Claim C2, amended. For every request whose URL contains \<^verbatim>\<open>without_caching.xml\<close>
  the Store is read once, at the start of the call, and the hit or miss is handled with
  options that carry the header \<^verbatim>\<open>cache-control: no-cache, no-store\<close>. On a miss the
  one request issued to the transport is made with these options, and the Store is
  written only if the policy engine, given these options, finds the response storable. On
  a stale hit the entry is served from the Store, the one request issued to the
  transport has the headers that \<^verbatim>\<open>policy.revalidationHeaders\<close> derives from these
  options (so it carries the header whenever that method keeps the request's
  \<^verbatim>\<open>cache-control\<close>), and the revalidated entry is written back with no test of
  storability. In every other case no request is issued and nothing is written.
\<close>

theorem C2_bypass_url:
  assumes "includes_str url ''without_caching.xml''"
  shows "filter isCacheGet (effects E url opts) = [CacheGet url]
         \<and> (\<exists>h. options.headers (optionsNew url opts) = Some h
                \<and> map_of h ''cache-control'' = Some ''no-cache, no-store'')
         \<and> (cacheGet E url = Inr JUndefined \<longrightarrow>
              filter isBaseFetch (effects E url opts) = [BaseFetch url (optionsNew url opts)]
              \<and> (filter isCacheSet (effects E url opts) \<noteq> [] \<longrightarrow>
                   (\<exists>r cp. baseFetch E url (optionsNew url opts) = Inr r
                      \<and> newPolicy (engine E) (getDelay E + netDelay E)
                            (optionsNew url opts) r False = Inr cp
                      \<and> storable (engine E) cp)))
         \<and> (staleHit E url opts tx pol rh \<longrightarrow>
              filter isSettled (effects E url opts) = [Settled (staleResponse E tx pol)]
              \<and> filter isBaseFetch (effects E url opts) =
                  [BaseFetch url ((optionsNew url opts)\<lparr>options.headers := Some rh\<rparr>)]
              \<and> (map_of rh ''cache-control''
                    = map_of (the (options.headers (optionsNew url opts))) ''cache-control''
                  \<longrightarrow> map_of rh ''cache-control'' = Some ''no-cache, no-store'')
              \<and> (baseFetch E url (revalidationOptions url opts rh) = Inr r
                  \<and> revalidatedPolicy (engine E) (getDelay E + netDelay E) pol
                        (optionsNew url opts) r = Inr (rp, m)
                  \<and> (if m then Inr r else staleResponse E tx pol) = Inr newResponse
                  \<longrightarrow> filter isCacheSet (effects E url opts) =
                        [CacheSet url
                           \<lparr>text' = tx, headers = response.headers newResponse,
                              size' = blobSize newResponse,
                              policy = toObject (engine E) rp\<rparr>
                           (timeToLive (engine E) (getDelay E + netDelay E + 2000) rp)]))
         \<and> (cacheGet E url \<noteq> Inr JUndefined
              \<and> (\<forall>tx pol rh. \<not> staleHit E url opts tx pol rh) \<longrightarrow>
              filter isBaseFetch (effects E url opts) = []
              \<and> filter isCacheSet (effects E url opts) = [])"
proof -
  have read: "filter isCacheGet (effects E url opts) = [CacheGet url]"
    by (rule one_read)
  have carried: "\<exists>h. options.headers (optionsNew url opts) = Some h
                   \<and> map_of h ''cache-control'' = Some ''no-cache, no-store''"
    by (rule bypass_header [OF assms])
  have missed: "cacheGet E url = Inr JUndefined \<longrightarrow>
      filter isBaseFetch (effects E url opts) = [BaseFetch url (optionsNew url opts)]
      \<and> (filter isCacheSet (effects E url opts) \<noteq> [] \<longrightarrow>
           (\<exists>r cp. baseFetch E url (optionsNew url opts) = Inr r
              \<and> newPolicy (engine E) (getDelay E + netDelay E)
                    (optionsNew url opts) r False = Inr cp
              \<and> storable (engine E) cp))"
    using miss_effects [of E url opts] by blast
  have revalidated: "staleHit E url opts tx pol rh \<longrightarrow>
      filter isSettled (effects E url opts) = [Settled (staleResponse E tx pol)]
      \<and> filter isBaseFetch (effects E url opts) =
          [BaseFetch url ((optionsNew url opts)\<lparr>options.headers := Some rh\<rparr>)]
      \<and> (map_of rh ''cache-control''
            = map_of (the (options.headers (optionsNew url opts))) ''cache-control''
          \<longrightarrow> map_of rh ''cache-control'' = Some ''no-cache, no-store'')
      \<and> (baseFetch E url (revalidationOptions url opts rh) = Inr r
          \<and> revalidatedPolicy (engine E) (getDelay E + netDelay E) pol
                (optionsNew url opts) r = Inr (rp, m)
          \<and> (if m then Inr r else staleResponse E tx pol) = Inr newResponse
          \<longrightarrow> filter isCacheSet (effects E url opts) =
                [CacheSet url
                   \<lparr>text' = tx, headers = response.headers newResponse,
                      size' = blobSize newResponse,
                      policy = toObject (engine E) rp\<rparr>
                   (timeToLive (engine E) (getDelay E + netDelay E + 2000) rp)])"
  proof (intro impI conjI)
    assume hit: "staleHit E url opts tx pol rh"
    show "filter isSettled (effects E url opts) = [Settled (staleResponse E tx pol)]"
      by (rule stale_effects (2) [OF hit])
    show "filter isBaseFetch (effects E url opts) =
            [BaseFetch url ((optionsNew url opts)\<lparr>options.headers := Some rh\<rparr>)]"
      using stale_effects (1) [OF hit] by (simp add: revalidationOptions_def)
    show "map_of rh ''cache-control'' = Some ''no-cache, no-store''"
      if "map_of rh ''cache-control''
            = map_of (the (options.headers (optionsNew url opts))) ''cache-control''"
      using that carried by auto
    show "filter isCacheSet (effects E url opts) =
            [CacheSet url
               \<lparr>text' = tx, headers = response.headers newResponse,
                  size' = blobSize newResponse, policy = toObject (engine E) rp\<rparr>
               (timeToLive (engine E) (getDelay E + netDelay E + 2000) rp)]"
      if "baseFetch E url (revalidationOptions url opts rh) = Inr r
          \<and> revalidatedPolicy (engine E) (getDelay E + netDelay E) pol
                (optionsNew url opts) r = Inr (rp, m)
          \<and> (if m then Inr r else staleResponse E tx pol) = Inr newResponse"
      using that stale_effects (3) [OF hit] by blast
  qed
  have idle: "cacheGet E url \<noteq> Inr JUndefined
      \<and> (\<forall>tx pol rh. \<not> staleHit E url opts tx pol rh) \<longrightarrow>
      filter isBaseFetch (effects E url opts) = []
      \<and> filter isCacheSet (effects E url opts) = []"
    using idle_effects [of E url opts] by blast
  show ?thesis
    by (intro conjI) (fact read carried missed revalidated idle)+
qed

theorem C2_bypass_url_witness:
  "includes_str ''/feed_without_caching.xml'' ''without_caching.xml''
   \<and> cacheGet stubEnv ''/feed_without_caching.xml'' = Inr JUndefined
   \<and> filter isCacheGet (effects stubEnv ''/feed_without_caching.xml'' getOptions) =
       [CacheGet ''/feed_without_caching.xml'']
   \<and> filter isBaseFetch (effects stubEnv ''/feed_without_caching.xml'' getOptions) =
       [BaseFetch ''/feed_without_caching.xml''
          \<lparr>method' = Some ''GET'',
             headers = Some [(''accept'', ''*/*''),
                             (''cache-control'', ''no-cache, no-store'')],
             body = None\<rparr>]
   \<and> filter isCacheSet (effects stubEnv ''/feed_without_caching.xml'' getOptions) = []
   \<and> includes_str ''/old_without_caching.xml'' ''without_caching.xml''
   \<and> staleHit stubEnv ''/old_without_caching.xml'' getOptions (JStr ''old'')
       \<lparr>resHeaders = [(''etag'', ''v1'')], noStore = False\<rparr>
       [(''accept'', ''*/*''), (''cache-control'', ''no-cache, no-store''),
        (''if-none-match'', ''v1'')]
   \<and> filter isBaseFetch (effects stubEnv ''/old_without_caching.xml'' getOptions) =
       [BaseFetch ''/old_without_caching.xml''
          \<lparr>method' = Some ''GET'',
             headers = Some [(''accept'', ''*/*''),
                             (''cache-control'', ''no-cache, no-store''),
                             (''if-none-match'', ''v1'')],
             body = None\<rparr>]
   \<and> filter isCacheSet (effects stubEnv ''/old_without_caching.xml'' getOptions) =
       [CacheSet ''/old_without_caching.xml''
          \<lparr>text' = JStr ''old'', headers = [(''etag'', ''v1'')], size' = 6,
             policy = JObj [(''v'', JStr ''1''), (''resh'', JObj [(''etag'', JStr ''v1'')])]\<rparr>
          60000]
   \<and> includes_str ''/null_without_caching.xml'' ''without_caching.xml''
   \<and> cacheGet stubEnv ''/null_without_caching.xml'' = Inr JNull
   \<and> filter isBaseFetch (effects stubEnv ''/null_without_caching.xml'' getOptions) = []
   \<and> filter isCacheSet (effects stubEnv ''/null_without_caching.xml'' getOptions) = []"
proof -
  have url1: "includes_str ''/feed_without_caching.xml'' ''without_caching.xml''"
    and url2: "includes_str ''/old_without_caching.xml'' ''without_caching.xml''"
    and url3: "includes_str ''/null_without_caching.xml'' ''without_caching.xml''"
    by simp_all
  have miss: "cacheGet stubEnv ''/feed_without_caching.xml'' = Inr JUndefined"
    and null: "cacheGet stubEnv ''/null_without_caching.xml'' = Inr JNull"
    by (simp_all add: stubEnv_def stubStore_def)
  have opts: "optionsNew url getOptions =
      \<lparr>method' = Some ''GET'',
         headers = Some [(''accept'', ''*/*''), (''cache-control'', ''no-cache, no-store'')],
         body = None\<rparr>" if "includes_str url ''without_caching.xml''" for url
    using that by (simp add: optionsNew_def getOptions_def toUpperCase_def toUpperChar_def)
  have unwritten:
    "filter isCacheSet (effects stubEnv ''/feed_without_caching.xml'' getOptions) = []"
    by (simp add: effects_def stub_run_bypass)
  have missed:
    "filter isCacheGet (effects stubEnv ''/feed_without_caching.xml'' getOptions) =
       [CacheGet ''/feed_without_caching.xml'']
     \<and> filter isBaseFetch (effects stubEnv ''/feed_without_caching.xml'' getOptions) =
       [BaseFetch ''/feed_without_caching.xml''
          \<lparr>method' = Some ''GET'',
             headers = Some [(''accept'', ''*/*''),
                             (''cache-control'', ''no-cache, no-store'')],
             body = None\<rparr>]"
    using miss C2_bypass_url [OF url1, of stubEnv getOptions] by (simp add: opts [OF url1])
  have fetched: "baseFetch stubEnv ''/old_without_caching.xml''
       (revalidationOptions ''/old_without_caching.xml'' getOptions
          [(''accept'', ''*/*''), (''cache-control'', ''no-cache, no-store''),
           (''if-none-match'', ''v1'')])
     = Inr \<lparr>status = 200, headers = [(''etag'', ''v1'')], body = ''<doc/>''\<rparr>"
    by (simp add: stubEnv_def stubFetch_def)
  have merged: "revalidatedPolicy (engine stubEnv) (getDelay stubEnv + netDelay stubEnv)
       \<lparr>resHeaders = [(''etag'', ''v1'')], noStore = False\<rparr>
       (optionsNew ''/old_without_caching.xml'' getOptions)
       \<lparr>status = 200, headers = [(''etag'', ''v1'')], body = ''<doc/>''\<rparr>
     = Inr (\<lparr>resHeaders = [(''etag'', ''v1'')], noStore = True\<rparr>, True)"
    by (simp add: opts [OF url2]) (simp add: stub_defs)
  have revalidated:
    "filter isBaseFetch (effects stubEnv ''/old_without_caching.xml'' getOptions) =
       [BaseFetch ''/old_without_caching.xml''
          \<lparr>method' = Some ''GET'',
             headers = Some [(''accept'', ''*/*''),
                             (''cache-control'', ''no-cache, no-store''),
                             (''if-none-match'', ''v1'')],
             body = None\<rparr>]
     \<and> filter isCacheSet (effects stubEnv ''/old_without_caching.xml'' getOptions) =
       [CacheSet ''/old_without_caching.xml''
          \<lparr>text' = JStr ''old'', headers = [(''etag'', ''v1'')], size' = 6,
             policy = JObj [(''v'', JStr ''1''), (''resh'', JObj [(''etag'', JStr ''v1'')])]\<rparr>
          60000]"
    using stub_bypass_stale fetched merged
      C2_bypass_url [OF url2, of stubEnv getOptions "JStr ''old''"
        "\<lparr>resHeaders = [(''etag'', ''v1'')], noStore = False\<rparr>"
        "[(''accept'', ''*/*''), (''cache-control'', ''no-cache, no-store''),
          (''if-none-match'', ''v1'')]"
        "\<lparr>status = 200, headers = [(''etag'', ''v1'')], body = ''<doc/>''\<rparr>"
        "\<lparr>resHeaders = [(''etag'', ''v1'')], noStore = True\<rparr>" True
        "\<lparr>status = 200, headers = [(''etag'', ''v1'')], body = ''<doc/>''\<rparr>",
        THEN conjunct2, THEN conjunct2, THEN conjunct2, THEN conjunct1]
    by (simp add: opts [OF url2] blobSize_def)
       (simp add: stubEnv_def stubEngine_def stub_toObject_def headersObject_def)
  have no_hit: "\<forall>tx pol rh. \<not> staleHit stubEnv ''/null_without_caching.xml'' getOptions tx pol rh"
    by (simp add: staleHit_def cacheHit_def null)
  have idle:
    "filter isBaseFetch (effects stubEnv ''/null_without_caching.xml'' getOptions) = []
     \<and> filter isCacheSet (effects stubEnv ''/null_without_caching.xml'' getOptions) = []"
    using null no_hit
      C2_bypass_url [OF url3, of stubEnv getOptions,
        THEN conjunct2, THEN conjunct2, THEN conjunct2, THEN conjunct2]
    by simp
  show ?thesis
    using url1 url2 url3 miss null unwritten missed stub_bypass_stale revalidated idle
    by simp
qed

subsection \<open>Malformed entries\<close>

text \<open>
  Claim C8, as stated: a request whose stored entry is malformed is handled as an ordinary
  cache miss and the call does not reject because of the entry. It fails: the entry of
  \<^verbatim>\<open>/broken.xml\<close> has no policy, \<^verbatim>\<open>CachePolicy.fromObject\<close> throws, and the call
  rejects with that error without calling the transport, which would have answered.
\<close>

theorem C8_malformed_entry_rejects_counterexample:
  "cacheGet stubEnv ''/broken.xml'' = Inr (JObj [(''text'', JStr ''old'')])
   \<and> wrapFetch stubEnv ''/broken.xml'' getOptions =
       [(0, CacheGet ''/broken.xml''), (1, Settled (Inl (Error ''Invalid serialization'')))]
   \<and> baseFetch stubEnv ''/broken.xml'' (optionsNew ''/broken.xml'' getOptions) =
       Inr \<lparr>status = 200, headers = [(''etag'', ''v1'')], body = ''<doc/>''\<rparr>"
  by (simp add: stub_run_broken) (simp add: stubEnv_def stubStore_def stubFetch_def)

text \<open>
  Claim C8, amended. For every request whose stored cache entry is malformed in that its
  policy snapshot cannot be reconstructed by \<^verbatim>\<open>CachePolicy.fromObject\<close>, the entry is
  handled on the hit path and the call rejects with the error that \<^verbatim>\<open>fromObject\<close>
  throws; the transport is not called and nothing is written to the Store.
\<close>

theorem C8_malformed_entry_rejects:
  assumes "cacheGet E url = Inr cacheValue" and "cacheValue \<noteq> JUndefined"
    and "getProp cacheValue ''text'' = Inr tx"
    and "getProp cacheValue ''policy'' = Inr policyObject"
    and "fromObject (engine E) policyObject = Inl e"
  shows "wrapFetch E url opts = [(0, CacheGet url), (getDelay E, Settled (Inl e))]"
  using assms
  by (simp add: hit_trace handleCacheHit_def orReject_def schedule_def)

theorem C8_malformed_entry_witness:
  "cacheGet stubEnv ''/broken.xml'' = Inr (JObj [(''text'', JStr ''old'')])
   \<and> getProp (JObj [(''text'', JStr ''old'')]) ''policy'' = Inr JUndefined
   \<and> fromObject (engine stubEnv) JUndefined = Inl (Error ''Invalid serialization'')
   \<and> wrapFetch stubEnv ''/broken.xml'' getOptions =
       [(0, CacheGet ''/broken.xml''), (1, Settled (Inl (Error ''Invalid serialization'')))]"
proof -
  have got: "cacheGet stubEnv ''/broken.xml'' = Inr (JObj [(''text'', JStr ''old'')])"
    by (simp add: stubEnv_def stubStore_def)
  have tx: "getProp (JObj [(''text'', JStr ''old'')]) ''text'' = Inr (JStr ''old'')"
    by simp
  have pol: "getProp (JObj [(''text'', JStr ''old'')]) ''policy'' = Inr JUndefined"
    by simp
  have thrown: "fromObject (engine stubEnv) JUndefined = Inl (Error ''Invalid serialization'')"
    by (simp add: stubEnv_def stubEngine_def stub_fromObject_def)
  show ?thesis
    using got pol thrown
      C8_malformed_entry_rejects [OF got _ tx pol thrown, of getOptions]
    by (simp add: stubEnv_def)
qed

text \<open>
  Claim C10. The cache-miss path is taken only when the Store's \<^verbatim>\<open>get\<close> returns exactly
  \<^verbatim>\<open>undefined\<close>; any other value, \<^verbatim>\<open>null\<close> or a value without the required fields
  included, is dispatched to the cache-hit path, where its policy field is read and handed
  to the engine without validation. On a miss the run begins with the call of the
  transport with the options and the caller is settled after the transport. For any
  other value the caller is settled before the transport, and the run begins as the reads
  of \<^verbatim>\<open>text\<close> and \<^verbatim>\<open>policy\<close> and the engine's answers on the policy field decide:
  \<^verbatim>\<open>null\<close> ends in the \<^verbatim>\<open>TypeError\<close> of the property read, and for a string or an
  object without a policy the engine is given \<^verbatim>\<open>undefined\<close>, whose error rejects the
  call.
\<close>

theorem C10_only_undefined_is_a_miss:
  assumes "cacheGet E url = Inr cacheValue"
  shows "(cacheValue = JUndefined \<longrightarrow>
            take 2 (wrapFetch E url opts) =
              [(0, CacheGet url), (getDelay E, BaseFetch url (optionsNew url opts))]
            \<and> precedes isFetchSettled isSettled (effects E url opts))
         \<and> (cacheValue \<noteq> JUndefined \<longrightarrow>
              \<not> precedes isFetchSettled isSettled (effects E url opts)
              \<and> take 3 (wrapFetch E url opts) =
                 (0, CacheGet url) #
                 (case getProp cacheValue ''text'' of
                    Inl e \<Rightarrow> [(getDelay E, Settled (Inl e))]
                  | Inr tx \<Rightarrow>
                 (case getProp cacheValue ''policy'' of
                    Inl e \<Rightarrow> [(getDelay E, Settled (Inl e))]
                  | Inr policyObject \<Rightarrow>
                 (case fromObject (engine E) policyObject of
                    Inl e \<Rightarrow> [(getDelay E, Settled (Inl e))]
                  | Inr pol \<Rightarrow>
                 (case satisfiesWithoutRevalidation (engine E) (getDelay E) pol
                         (optionsNew url opts) of
                    Inl e \<Rightarrow> [(getDelay E, Settled (Inl e))]
                  | Inr fresh \<Rightarrow>
                      if fresh
                      then [(getDelay E,
                             Settled (Response_new E tx
                                        (responseHeaders (engine E) (getDelay E) pol)))]
                      else
                 (case revalidationHeaders (engine E) pol (optionsNew url opts) of
                    Inl e \<Rightarrow> [(getDelay E, Settled (Inl e))]
                  | Inr rh \<Rightarrow>
                      [(getDelay E,
                        BaseFetch url ((optionsNew url opts)\<lparr>options.headers := Some rh\<rparr>)),
                       (getDelay E,
                        Settled (Response_new E tx
                                   (responseHeaders (engine E) (getDelay E) pol)))]))))))
         \<and> (cacheValue = JNull \<longrightarrow>
              wrapFetch E url opts =
                [(0, CacheGet url),
                 (getDelay E, Settled (Inl (TypeError ''Cannot read properties of null'')))])
         \<and> ((cacheValue = JStr s \<or> cacheValue = JObj props \<and> map_of props ''policy'' = None)
              \<and> fromObject (engine E) JUndefined = Inl e \<longrightarrow>
              wrapFetch E url opts = [(0, CacheGet url), (getDelay E, Settled (Inl e))])"
proof (intro conjI impI)
  assume "cacheValue = JUndefined"
  with assms have miss: "cacheGet E url = Inr JUndefined" by simp
  show "take 2 (wrapFetch E url opts) =
          [(0, CacheGet url), (getDelay E, BaseFetch url (optionsNew url opts))]"
    by (rule miss_order (1) [OF miss])
  show "precedes isFetchSettled isSettled (effects E url opts)"
    by (rule miss_order (2) [OF miss])
next
  assume hit: "cacheValue \<noteq> JUndefined"
  show "\<not> precedes isFetchSettled isSettled (effects E url opts)"
    by (rule hit_prefix (2) [OF assms hit])
  show "take 3 (wrapFetch E url opts) =
      (0, CacheGet url) #
      (case getProp cacheValue ''text'' of
         Inl e \<Rightarrow> [(getDelay E, Settled (Inl e))]
       | Inr tx \<Rightarrow>
      (case getProp cacheValue ''policy'' of
         Inl e \<Rightarrow> [(getDelay E, Settled (Inl e))]
       | Inr policyObject \<Rightarrow>
      (case fromObject (engine E) policyObject of
         Inl e \<Rightarrow> [(getDelay E, Settled (Inl e))]
       | Inr pol \<Rightarrow>
      (case satisfiesWithoutRevalidation (engine E) (getDelay E) pol
              (optionsNew url opts) of
         Inl e \<Rightarrow> [(getDelay E, Settled (Inl e))]
       | Inr fresh \<Rightarrow>
           if fresh
           then [(getDelay E,
                  Settled (Response_new E tx
                             (responseHeaders (engine E) (getDelay E) pol)))]
           else
      (case revalidationHeaders (engine E) pol (optionsNew url opts) of
         Inl e \<Rightarrow> [(getDelay E, Settled (Inl e))]
       | Inr rh \<Rightarrow>
           [(getDelay E,
             BaseFetch url ((optionsNew url opts)\<lparr>options.headers := Some rh\<rparr>)),
            (getDelay E,
             Settled (Response_new E tx
                        (responseHeaders (engine E) (getDelay E) pol)))])))))"
    by (rule hit_prefix (1) [OF assms hit])
next
  assume "cacheValue = JNull"
  with assms show "wrapFetch E url opts =
      [(0, CacheGet url),
       (getDelay E, Settled (Inl (TypeError ''Cannot read properties of null'')))]"
    by (simp add: hit_trace handleCacheHit_def orReject_def schedule_def)
next
  assume "(cacheValue = JStr s \<or> cacheValue = JObj props \<and> map_of props ''policy'' = None)
            \<and> fromObject (engine E) JUndefined = Inl e"
  with assms show "wrapFetch E url opts = [(0, CacheGet url), (getDelay E, Settled (Inl e))]"
    by (auto simp: hit_trace handleCacheHit_def orReject_def schedule_def
          split: option.splits)
qed

theorem C10_only_undefined_witness:
  "cacheGet stubEnv ''/doc.xml'' = Inr JUndefined
   \<and> take 2 (wrapFetch stubEnv ''/doc.xml'' getOptions) =
       [(0, CacheGet ''/doc.xml''),
        (1, BaseFetch ''/doc.xml''
              \<lparr>method' = Some ''GET'', headers = Some [(''accept'', ''*/*'')],
                 body = None\<rparr>)]
   \<and> precedes isFetchSettled isSettled (effects stubEnv ''/doc.xml'' getOptions)
   \<and> cacheGet stubEnv ''/null.xml'' = Inr JNull
   \<and> wrapFetch stubEnv ''/null.xml'' getOptions =
       [(0, CacheGet ''/null.xml''),
        (1, Settled (Inl (TypeError ''Cannot read properties of null'')))]
   \<and> cacheGet stubEnv ''/broken.xml'' = Inr (JObj [(''text'', JStr ''old'')])
   \<and> wrapFetch stubEnv ''/broken.xml'' getOptions =
       [(0, CacheGet ''/broken.xml''), (1, Settled (Inl (Error ''Invalid serialization'')))]
   \<and> cacheGet stubEnv ''/string.xml'' = Inr (JStr ''oops'')
   \<and> wrapFetch stubEnv ''/string.xml'' getOptions =
       [(0, CacheGet ''/string.xml''), (1, Settled (Inl (Error ''Invalid serialization'')))]
   \<and> cacheGet stubEnv ''/stale.xml'' =
       Inr (storedEntry ''old'' [(''etag'', ''v1'')])
   \<and> take 3 (wrapFetch stubEnv ''/stale.xml'' getOptions) =
       [(0, CacheGet ''/stale.xml''),
        (1, BaseFetch ''/stale.xml''
              \<lparr>method' = Some ''GET'',
                 headers = Some [(''accept'', ''*/*''), (''if-none-match'', ''v1'')],
                 body = None\<rparr>),
        (1, Settled (Inr \<lparr>status = 200,
                          headers = [(''etag'', ''v1''),
                                     (''content-type'', ''text/plain;charset=UTF-8'')],
                          body = ''old''\<rparr>))]
   \<and> \<not> precedes isFetchSettled isSettled (effects stubEnv ''/stale.xml'' getOptions)"
proof -
  have miss: "cacheGet stubEnv ''/doc.xml'' = Inr JUndefined"
    and null: "cacheGet stubEnv ''/null.xml'' = Inr JNull"
    and broken: "cacheGet stubEnv ''/broken.xml'' = Inr (JObj [(''text'', JStr ''old'')])"
    and string: "cacheGet stubEnv ''/string.xml'' = Inr (JStr ''oops'')"
    and stale: "cacheGet stubEnv ''/stale.xml'' = Inr (storedEntry ''old'' [(''etag'', ''v1'')])"
    by (simp_all add: stubEnv_def stubStore_def)
  have thrown: "fromObject (engine stubEnv) JUndefined = Inl (Error ''Invalid serialization'')"
    by (simp add: stubEnv_def stubEngine_def stub_fromObject_def)
  have opts: "optionsNew ''/doc.xml'' getOptions =
      \<lparr>method' = Some ''GET'', headers = Some [(''accept'', ''*/*'')], body = None\<rparr>"
    by (simp add: optionsNew_def getOptions_def toUpperCase_def toUpperChar_def)
  have delay: "getDelay stubEnv = 1"
    by (simp add: stubEnv_def)
  have missed: "take 2 (wrapFetch stubEnv ''/doc.xml'' getOptions) =
      [(0, CacheGet ''/doc.xml''),
       (1, BaseFetch ''/doc.xml''
             \<lparr>method' = Some ''GET'', headers = Some [(''accept'', ''*/*'')],
                body = None\<rparr>)]
     \<and> precedes isFetchSettled isSettled (effects stubEnv ''/doc.xml'' getOptions)"
    using C10_only_undefined_is_a_miss [OF miss, of getOptions, THEN conjunct1]
    by (simp add: opts delay)
  have null_rejects: "wrapFetch stubEnv ''/null.xml'' getOptions =
      [(0, CacheGet ''/null.xml''),
       (1, Settled (Inl (TypeError ''Cannot read properties of null'')))]"
    using C10_only_undefined_is_a_miss
      [OF null, of getOptions, THEN conjunct2, THEN conjunct2, THEN conjunct1]
    by (simp add: delay)
  have broken_rejects: "wrapFetch stubEnv ''/broken.xml'' getOptions =
      [(0, CacheGet ''/broken.xml''), (1, Settled (Inl (Error ''Invalid serialization'')))]"
    using thrown C10_only_undefined_is_a_miss
      [OF broken, of getOptions _ "[(''text'', JStr ''old'')]" "Error ''Invalid serialization''",
       THEN conjunct2, THEN conjunct2, THEN conjunct2]
    by (simp add: delay)
  have string_rejects: "wrapFetch stubEnv ''/string.xml'' getOptions =
      [(0, CacheGet ''/string.xml''), (1, Settled (Inl (Error ''Invalid serialization'')))]"
    using thrown C10_only_undefined_is_a_miss
      [OF string, of getOptions "''oops''" _ "Error ''Invalid serialization''",
       THEN conjunct2, THEN conjunct2, THEN conjunct2]
    by (simp add: delay)
  have served: "take 3 (wrapFetch stubEnv ''/stale.xml'' getOptions) =
       [(0, CacheGet ''/stale.xml''),
        (1, BaseFetch ''/stale.xml''
              \<lparr>method' = Some ''GET'',
                 headers = Some [(''accept'', ''*/*''), (''if-none-match'', ''v1'')],
                 body = None\<rparr>),
        (1, Settled (Inr \<lparr>status = 200,
                          headers = [(''etag'', ''v1''),
                                     (''content-type'', ''text/plain;charset=UTF-8'')],
                          body = ''old''\<rparr>))]
     \<and> \<not> precedes isFetchSettled isSettled (effects stubEnv ''/stale.xml'' getOptions)"
    using C10_only_undefined_is_a_miss
      [OF stale, of getOptions, THEN conjunct2, THEN conjunct1]
    by (simp add: storedEntry_def) (simp add: stub_defs optionsNew_def Response_new_def
          toUpperCase_def toUpperChar_def)
  show ?thesis
    using miss null broken string stale missed null_rejects broken_rejects string_rejects
      served
    by simp
qed

subsection \<open>The method\<close>

text \<open>
  Claim C9, as stated: the HTTP method is normalised to uppercase before any Store lookup
  is performed. It fails: \<^verbatim>\<open>cachedFetch\<close> calls \<^verbatim>\<open>cache.get(url)\<close> in its first
  line and suspends with the options as they came; the method is made uppercase when the
  function resumes. For a request with the method \<^verbatim>\<open>get\<close> the lookup is issued and the
  suspended function holds \<^verbatim>\<open>get\<close>.
\<close>

theorem C9_lookup_before_normalisation_counterexample:
  "cachedFetch stubEnv 0 ''/doc.xml''
     \<lparr>method' = Some ''get'', headers = Some [(''accept'', ''*/*'')], body = None\<rparr> =
   ([CacheGet ''/doc.xml''],
    [(1, AfterGet ''/doc.xml''
          \<lparr>method' = Some ''get'', headers = Some [(''accept'', ''*/*'')], body = None\<rparr>
          (Inr JUndefined))])"
  by (simp add: cachedFetch_def stubEnv_def stubStore_def)

text \<open>
  Claim C9, amended. For every incoming request the Store lookup is keyed by the URL alone
  and is issued before the method is normalised; the method is normalised to uppercase
  before the hit or miss path is entered, so that two requests differing only in method
  letter case never produce distinct cache keys or distinct hit or miss outcomes: their
  runs are the same.
\<close>

theorem C9_method_case_is_immaterial:
  fixes o1 o2 :: options
  assumes "map_option toUpperCase (method' o1) = map_option toUpperCase (method' o2)"
    and "options.headers o1 = options.headers o2"
    and "options.body o1 = options.body o2"
  shows "wrapFetch E url o1 = wrapFetch E url o2
         \<and> filter isCacheGet (effects E url o1) = [CacheGet url]
         \<and> method' (optionsNew url o1) = map_option toUpperCase (method' o1)"
proof -
  have same: "optionsNew url o1 = optionsNew url o2"
    by (rule optionsNew_cong [OF assms])
  have "wrapFetch E url o1 = wrapFetch E url o2"
    by (simp only: wrapFetch_optionsNew same)
  then show ?thesis
    by (simp add: one_read optionsNew_method)
qed

theorem C9_method_case_witness:
  "map_option toUpperCase (method' getOptions)
     = map_option toUpperCase (method' (getOptions\<lparr>method' := Some ''GeT''\<rparr>))
   \<and> wrapFetch stubEnv ''/stale.xml'' getOptions
     = wrapFetch stubEnv ''/stale.xml'' (getOptions\<lparr>method' := Some ''GeT''\<rparr>)
   \<and> method' (optionsNew ''/stale.xml'' getOptions) = Some ''GET''"
proof -
  have same: "map_option toUpperCase (method' getOptions)
     = map_option toUpperCase (method' (getOptions\<lparr>method' := Some ''GeT''\<rparr>))"
    by (simp add: getOptions_def toUpperCase_def toUpperChar_def)
  show ?thesis
    using same
      C9_method_case_is_immaterial
        [OF same, of stubEnv "''/stale.xml''"]
    by (simp add: getOptions_def toUpperCase_def toUpperChar_def)
qed

end
